theory Spec2Isabelle
  imports Main "HOL-Library.AList" "HOL-Library.Char_ord" "HOL-Library.List_Lexorder"
begin

section \<open>Python values shared by both catalog readers\<close>

text \<open>
  The exceptions the two readers raise themselves (\<open>ValueError\<close>, \<open>RuntimeError\<close>), the ones
  Python raises for them (\<open>IndexError\<close> on \<open>flags[0]\<close>, \<open>KeyError\<close> on a missing dictionary
  key, \<open>TypeError\<close>), the one \<open>_generate_datasets\<close> catches (\<open>IOError\<close> is \<open>OSError\<close> in
  Python 3), and \<open>OtherError\<close> for any other exception of a library call, which nothing in
  the source catches.
\<close>

datatype py_error =
  IndexError | KeyError | ValueError | RuntimeError | TypeError | OSError | OtherError

text \<open>\<open>s.endswith(suffix)\<close>.\<close>

definition endswith :: "string \<Rightarrow> string \<Rightarrow> bool" where
  "endswith s suffix =
     (length suffix \<le> length s \<and> drop (length s - length suffix) s = suffix)"

text \<open>\<open>sep.join(items)\<close>.\<close>

fun join :: "string \<Rightarrow> string list \<Rightarrow> string" where
  "join sep [] = []"
| "join sep [x] = x"
| "join sep (x # y # ys) = x @ sep @ join sep (y # ys)"

section \<open>dc2\_dm\_catalog.py: the flag mask\<close>

text \<open>
  A one-dimensional numpy array of booleans is a \<open>bool list\<close>.
  \<^verbatim>\<open>
  def create_basic_flag_mask(*flags):
      out = np.ones(len(flags[0]), np.bool)
      for flag in flags:
          out &= (~flag)
      return out
  \<close>
  \<open>np_ones n\<close> is \<open>np.ones(n, np.bool)\<close> and \<open>np_invert\<close> is \<open>~flag\<close>. \<open>np_iand out x\<close> is
  the in-place \<open>out &= x\<close> on one-dimensional arrays: numpy broadcasts the right operand
  to the shape of \<open>out\<close>, which works when the lengths agree or when \<open>x\<close> has length 1, and
  raises \<open>ValueError\<close> otherwise (the output operand itself is never broadcast).
\<close>

definition np_ones :: "nat \<Rightarrow> bool list" where
  "np_ones n = replicate n True"

definition np_invert :: "bool list \<Rightarrow> bool list" where
  "np_invert flag = map Not flag"

definition np_iand :: "bool list \<Rightarrow> bool list \<Rightarrow> py_error + bool list" where
  "np_iand out x =
     (if length x = length out then Inr (map2 (\<and>) out x)
      else if length x = 1 then Inr (map (\<lambda>b. b \<and> hd x) out)
      else Inl ValueError)"

text \<open>The \<open>for\<close> loop: \<open>out\<close> is threaded through, the first failure ends it.\<close>

fun flag_loop :: "bool list \<Rightarrow> bool list list \<Rightarrow> py_error + bool list" where
  "flag_loop out [] = Inr out"
| "flag_loop out (flag # flags) =
     (case np_iand out (np_invert flag) of
        Inl e \<Rightarrow> Inl e
      | Inr out' \<Rightarrow> flag_loop out' flags)"

definition create_basic_flag_mask :: "bool list list \<Rightarrow> py_error + bool list" where
  "create_basic_flag_mask flags =
     (case flags of
        [] \<Rightarrow> Inl IndexError
      | flag0 # _ \<Rightarrow> flag_loop (np_ones (length flag0)) flags)"

section \<open>dc2\_truth22i.py: the relational reader\<close>

subsection \<open>Python values and dictionaries\<close>

text \<open>
  The values the keyword argument \<open>base_filters\<close> takes: \<open>None\<close> (also when the key is
  absent, \<open>kwargs.get\<close>), a \<open>str\<close>, or a list or tuple of values. Truthiness is Python's:
  \<open>None\<close>, the empty string and the empty sequence are false.
\<close>

datatype py_val = PyNone | PyStr string | PySeq "py_val list"

fun py_truthy :: "py_val \<Rightarrow> bool" where
  "py_truthy PyNone = False"
| "py_truthy (PyStr s) = (s \<noteq> [])"
| "py_truthy (PySeq xs) = (xs \<noteq> [])"

text \<open>
  Modelled from the spec: \<open>is_string_like\<close> is imported from \<open>.utils\<close>, which is not among
  the sources. By its name, and by the documented parameter ``\<open>base_filters\<close>: str or list of
  str'', it holds of a string and of nothing else.
\<close>

fun is_string_like :: "py_val \<Rightarrow> bool" where
  "is_string_like (PyStr s) = True"
| "is_string_like v = False"

text \<open>
  \<open>tuple(v)\<close>: the items of a sequence, the one-character strings of a string, and a
  \<open>TypeError\<close> for \<open>None\<close>.
\<close>

fun py_tuple :: "py_val \<Rightarrow> py_error + py_val list" where
  "py_tuple (PySeq xs) = Inr xs"
| "py_tuple (PyStr s) = Inr (map (\<lambda>c. PyStr [c]) s)"
| "py_tuple PyNone = Inl TypeError"

text \<open>\<open>sep.join(items)\<close> on Python values: a \<open>TypeError\<close> unless every item is a string.\<close>

fun as_strings :: "py_val list \<Rightarrow> string list option" where
  "as_strings [] = Some []"
| "as_strings (PyStr s # vs) = map_option ((#) s) (as_strings vs)"
| "as_strings (v # vs) = None"

definition py_join :: "string \<Rightarrow> py_val list \<Rightarrow> py_error + string" where
  "py_join sep items =
     (case as_strings items of None \<Rightarrow> Inl TypeError | Some ss \<Rightarrow> Inr (join sep ss))"

text \<open>
  A \<open>dict\<close> is an association list with distinct keys, in insertion order:
  \<open>AList.update k v\<close> is \<open>d[k] = v\<close> (an existing key keeps its place, a new one goes last).
  \<open>dict_of_pairs\<close> is \<open>dict(pairs)\<close> and the comprehension \<open>{t[1]: t[2] for t in rows}\<close>.
\<close>

definition dict_of_pairs :: "('k \<times> 'v) list \<Rightarrow> ('k \<times> 'v) list" where
  "dict_of_pairs ps = fold (\<lambda>(k, v). AList.update k v) ps []"

subsection \<open>The reader\<close>

text \<open>
  What the reader sees of the outside: the file system (\<open>os.path.isfile\<close>), \<open>utils.md5\<close> of
  a file, and the sqlite database behind a file name: whether \<open>sqlite3.connect\<close> raises,
  the rows of \<open>column_descriptions\<close>, the (name, declared type) columns of
  \<open>PRAGMA table_info(table)\<close>, and the rows a query returns. Each database call may raise.
  \<open>tw_np_dtype\<close> is numpy's verdict on a list of (field name, type string) pairs handed to
  \<open>np.dtype\<close>: \<open>None\<close> when it builds the record dtype. Row values are of an arbitrary
  type \<open>'r\<close>.
\<close>

record 'r truth_world =
  tw_isfile :: "string \<Rightarrow> bool"
  tw_md5 :: "string \<Rightarrow> string"
  tw_connect :: "string \<Rightarrow> py_error option"
  tw_column_descriptions :: "string \<Rightarrow> py_error + (string \<times> string) list"
  tw_table_info :: "string \<Rightarrow> string \<Rightarrow> py_error + (string \<times> string) list"
  tw_execute :: "string \<Rightarrow> string \<Rightarrow> py_error + 'r list"
  tw_np_dtype :: "(string \<times> string) list \<Rightarrow> py_error option"

text \<open>The keyword arguments of the constructor; \<open>None\<close> is an absent key.\<close>

record truth_kwargs =
  kw_filename :: "string option"
  kw_table_name :: "string option"
  kw_is_static :: "bool option"
  kw_base_filters :: py_val
  kw_md5 :: "string option"

text \<open>The attributes \<open>_subclass_init\<close> sets (the source's names, without the underscore).\<close>

record truth_reader =
  filename :: string
  table_name :: string
  is_static :: bool
  base_filters :: "py_val list"
  column_descriptions :: "(string \<times> string) list"
  native_quantity_dtypes :: "(string \<times> string) list"

definition type_dict :: "(string \<times> string) list" where
  "type_dict = [(''BIGINT'', ''int64''), (''INT'', ''int32''), (''FLOAT'', ''float32''),
                (''DOUBLE'', ''float64'')]"

text \<open>
  \<^verbatim>\<open>
  for (k,v) in self._native_quantity_dtypes.items():
      if v in type_dict.keys():
          self._native_quantity_dtypes[k] = type_dict[v]
  \<close>
  The loop runs over the items of the dictionary it updates; only values change, so the
  iteration is over the items as they were. \<open>coerce_step\<close> is the loop body.
\<close>

definition coerce_step ::
  "string \<times> string \<Rightarrow> (string \<times> string) list \<Rightarrow> (string \<times> string) list" where
  "coerce_step = (\<lambda>(k, v) d'. case map_of type_dict v of
                                   Some t \<Rightarrow> AList.update k t d'
                                 | None \<Rightarrow> d')"

definition coerce_dtypes :: "(string \<times> string) list \<Rightarrow> (string \<times> string) list" where
  "coerce_dtypes d = fold coerce_step d d"

text \<open>
  \<^verbatim>\<open>
  base_filters = kwargs.get('base_filters')
  if base_filters:
      if is_string_like(base_filters):
          self.base_filters = (base_filters,)
      else:
          self.base_filters = tuple(base_filters)
  else:
      self.base_filters = tuple()
  \<close>
\<close>

definition init_base_filters :: "py_val \<Rightarrow> py_error + py_val list" where
  "init_base_filters bf =
     (if py_truthy bf then
        (if is_string_like bf then Inr [bf] else py_tuple bf)
      else Inr [])"

text \<open>
  \<open>DC2Truth22CatalogReader._subclass_init\<close>, in the order of the source: the file name
  (\<open>KeyError\<close> when absent), the table name and the static flag with their defaults, the
  base filters, the two \<open>ValueError\<close>s, the connection, the column descriptions (read for
  a static catalog only), and the per-column dtype table.
\<close>

definition truth_subclass_init ::
  "'r truth_world \<Rightarrow> truth_kwargs \<Rightarrow> py_error + truth_reader" where
  "truth_subclass_init w kw =
     (case kw_filename kw of
        None \<Rightarrow> Inl KeyError
      | Some fname \<Rightarrow>
         (let tname = (case kw_table_name kw of None \<Rightarrow> ''truth'' | Some t \<Rightarrow> t);
              static = (case kw_is_static kw of None \<Rightarrow> True | Some b \<Rightarrow> b)
          in case init_base_filters (kw_base_filters kw) of
               Inl e \<Rightarrow> Inl e
             | Inr bfs \<Rightarrow>
                if \<not> tw_isfile w fname then Inl ValueError
                else if (case kw_md5 kw of
                           None \<Rightarrow> False
                         | Some m \<Rightarrow> m \<noteq> [] \<and> tw_md5 w fname \<noteq> m) then Inl ValueError
                else (case tw_connect w fname of
                        Some e \<Rightarrow> Inl e
                      | None \<Rightarrow>
                         (case (if static then tw_column_descriptions w fname else Inr []) of
                            Inl e \<Rightarrow> Inl e
                          | Inr descr \<Rightarrow>
                             (case tw_table_info w fname tname of
                                Inl e \<Rightarrow> Inl e
                              | Inr rows \<Rightarrow>
                                 Inr \<lparr>filename = fname, table_name = tname,
                                      is_static = static, base_filters = bfs,
                                      column_descriptions = dict_of_pairs descr,
                                      native_quantity_dtypes =
                                        coerce_dtypes (dict_of_pairs rows)\<rparr>)))))"

subsection \<open>Iteration and the getter\<close>

text \<open>
  \<^verbatim>\<open>
  if native_filters is not None:
      all_filters = self.base_filters + tuple(native_filters)
  else:
      all_filters = self.base_filters
  if all_filters:
      query_where_clause = 'WHERE ({})'.format(') AND ('.join(all_filters))
  else:
      query_where_clause = ''
  \<close>
  The call-time filters are a list of strings (\<open>native_filter_string_only\<close>), or \<open>None\<close>.
\<close>

definition all_filters :: "truth_reader \<Rightarrow> string list option \<Rightarrow> py_val list" where
  "all_filters r native_filters =
     (case native_filters of
        Some nf \<Rightarrow> base_filters r @ map PyStr nf
      | None \<Rightarrow> base_filters r)"

definition query_where_clause :: "py_val list \<Rightarrow> py_error + string" where
  "query_where_clause fs =
     (if fs \<noteq> [] then
        (case py_join '') AND ('' fs of
           Inl e \<Rightarrow> Inl e
         | Inr j \<Rightarrow> Inr (''WHERE ('' @ j @ '')''))
      else Inr [])"

text \<open>
  The getter is a closure over the reader and the WHERE clause of its iteration call.
  The generator yields it once; a failure while building the clause is raised before
  anything is yielded.
\<close>

record truth_getter =
  g_reader :: truth_reader
  g_where :: string

definition truth_iter_native_dataset ::
  "truth_reader \<Rightarrow> string list option \<Rightarrow> py_error + truth_getter list" where
  "truth_iter_native_dataset r native_filters =
     (case query_where_clause (all_filters r native_filters) of
        Inl e \<Rightarrow> Inl e
      | Inr wc \<Rightarrow> Inr [\<lparr>g_reader = r, g_where = wc\<rparr>])"

text \<open>
  \<open>[(q, self._native_quantity_dtypes[q]) for q in quantities]\<close>: \<open>None\<close> is the \<open>KeyError\<close>
  of a quantity that is not a column.
\<close>

fun dtype_fields ::
  "(string \<times> string) list \<Rightarrow> string list \<Rightarrow> (string \<times> string) list option" where
  "dtype_fields d [] = Some []"
| "dtype_fields d (q # qs) =
     (case map_of d q of
        None \<Rightarrow> None
      | Some t \<Rightarrow> map_option ((#) (q, t)) (dtype_fields d qs))"

text \<open>
  \<open>'SELECT {} FROM {} {};'.format(', '.join(quantities), self._table_name,
  query_where_clause)\<close>
\<close>

definition getter_query :: "truth_getter \<Rightarrow> string list \<Rightarrow> string" where
  "getter_query g quantities =
     ''SELECT '' @ join '', '' quantities @ '' FROM '' @ table_name (g_reader g) @ '' '' @
     g_where g @ '';''"

text \<open>
  The structured array \<open>np.array(rows, dtype)\<close>: its record dtype and its rows (the
  conversion of the row values to the dtype is numpy's and is not modelled).
\<close>

record 'r structured_array =
  sa_dtype :: "(string \<times> string) list"
  sa_rows :: "'r list"

definition dc2_truth_native_quantity_getter ::
  "'r truth_world \<Rightarrow> truth_getter \<Rightarrow> string list \<Rightarrow> py_error + 'r structured_array" where
  "dc2_truth_native_quantity_getter w g quantities =
     (case dtype_fields (native_quantity_dtypes (g_reader g)) quantities of
        None \<Rightarrow> Inl KeyError
      | Some flds \<Rightarrow>
         (case tw_np_dtype w flds of
            Some e \<Rightarrow> Inl e
          | None \<Rightarrow>
             (case tw_execute w (filename (g_reader g)) (getter_query g quantities) of
                Inl e \<Rightarrow> Inl e
              | Inr rows \<Rightarrow> Inr \<lparr>sa_dtype = flds, sa_rows = rows\<rparr>)))"

text \<open>
  The storage-to-canonical table as the specification words it: BIGINT to int64, INT to
  int32, FLOAT to float32, DOUBLE to float64, and any other declared type unchanged.
\<close>

definition spec_canonical_dtype :: "string \<Rightarrow> string" where
  "spec_canonical_dtype t =
     (if t = ''BIGINT'' then ''int64''
      else if t = ''INT'' then ''int32''
      else if t = ''FLOAT'' then ''float32''
      else if t = ''DOUBLE'' then ''float64''
      else t)"

section \<open>dc2\_dm\_catalog.py: the columnar catalog\<close>

subsection \<open>Schemas, handles and the outside world\<close>

text \<open>
  A schema is the dictionary \<open>{column: {'dtype': ..., 'default': ...}}\<close>; the \<open>default\<close>
  entry is optional. A YAML schema file holds either nothing (\<open>yaml.load\<close> returns
  \<open>None\<close>) or such a dictionary.
\<close>

record col_info =
  ci_dtype :: string
  ci_default :: "bool option"

type_synonym schema_dict = "(string \<times> col_info) list"

datatype yaml_doc = YamlNull | YamlMap schema_dict

text \<open>
  A \<open>pq.ParquetFile\<close> object. Two objects are the same object exactly when their \<open>h_id\<close>
  agree: every construction takes the next number of the catalog's counter \<open>next_id\<close>,
  which stands for Python's object identity.
\<close>

record handle =
  h_id :: nat
  h_path :: string

text \<open>File system operations that change the world, in the order they happened.\<close>

datatype fs_op = CopyFile string string | WriteYaml string yaml_doc

text \<open>
  What the catalog sees of the outside:
  \<^item> \<open>dw_dirs\<close>: the entries \<open>os.listdir\<close> returns for a directory, \<open>None\<close> for a path that
    is not a directory (\<open>os.path.isdir\<close>);
  \<^item> \<open>dw_files\<close>: the regular files (\<open>os.path.isfile\<close>) and the YAML document each holds;
  \<^item> \<open>dw_open\<close>: the exception \<open>pq.ParquetFile(path)\<close> raises, \<open>None\<close> when it returns;
  \<^item> \<open>dw_read\<close>: \<open>dataset.read().to_pandas().dtypes.to_dict()\<close> for the file at a path;
  \<^item> \<open>dw_column\<close>: \<open>dataset.read(columns=[q]).to_pandas()[q].values\<close>;
  \<^item> \<open>dw_clear_cache\<close>: the exception \<open>dataset.clear_cache()\<close> raises, \<open>None\<close> when it returns;
  \<^item> \<open>dw_meta\<close>: the exception \<open>_generate_info_dict(META_PATH)\<close> raises, \<open>None\<close> when it
    returns (the dictionary itself is read by no operation modelled here);
  \<^item> \<open>dw_log\<close>: the writes made so far.
\<close>

record 'v dm_world =
  dw_dirs :: "string \<Rightarrow> string list option"
  dw_files :: "string \<Rightarrow> yaml_doc option"
  dw_open :: "string \<Rightarrow> py_error option"
  dw_read :: "string \<Rightarrow> py_error + (string \<times> string) list"
  dw_column :: "string \<Rightarrow> string \<Rightarrow> py_error + 'v list"
  dw_clear_cache :: "handle \<Rightarrow> py_error option"
  dw_meta :: "py_error option"
  dw_log :: "fs_op list"

text \<open>
  The keyword arguments. \<open>dk_filename_re\<close> is the \<open>match\<close> predicate of
  \<open>re.compile(kwargs.get('filename_pattern', self.FILE_PATTERN))\<close>; the regular expression
  engine is not modelled. \<open>dk_is_dpdd\<close> is the truth value of \<open>kwargs.get('is_dpdd')\<close>.
\<close>

record dm_kwargs =
  dk_base_dir :: "string option"
  dk_filename_re :: "string \<Rightarrow> bool"
  dk_use_cache :: "bool option"
  dk_schema_filename :: "string option"
  dk_is_dpdd :: bool

text \<open>
  The attributes of a catalog instance (the source's names, without the underscore), and
  the counter \<open>next_id\<close> of the handles constructed so far.
\<close>

record dm_catalog =
  base_dir :: string
  filename_re :: "string \<Rightarrow> bool"
  use_cache :: bool
  schema_path :: string
  schema :: schema_dict
  file_handles :: "(string \<times> handle) list"
  datasets :: "handle list"
  quantity_modifiers :: "(string \<times> string option) list"
  native_filter_quantities :: "string list"
  next_id :: nat

text \<open>\<open>os.path.join(a, b)\<close> on POSIX, for two components.\<close>

definition os_path_join :: "string \<Rightarrow> string \<Rightarrow> string" where
  "os_path_join a b =
     (if b \<noteq> [] \<and> hd b = CHR ''/'' then b
      else if a = [] \<or> last a = CHR ''/'' then a @ b
      else a @ ''/'' @ b)"

subsection \<open>The handle registry\<close>

text \<open>
  \<^verbatim>\<open>
  def _open_parquet(self, file_path):
      if file_path not in self._file_handles:
          self._file_handles[file_path] = pq.ParquetFile(file_path)
      return self._file_handles[file_path]
  \<close>
\<close>

definition open_parquet ::
  "'v dm_world \<Rightarrow> string \<Rightarrow> dm_catalog \<Rightarrow> (py_error + handle) \<times> dm_catalog" where
  "open_parquet w file_path c =
     (case map_of (file_handles c) file_path of
        Some h \<Rightarrow> (Inr h, c)
      | None \<Rightarrow>
         (case dw_open w file_path of
            Some e \<Rightarrow> (Inl e, c)
          | None \<Rightarrow>
             (let h = \<lparr>h_id = next_id c, h_path = file_path\<rparr>
              in (Inr h, c\<lparr>file_handles := AList.update file_path h (file_handles c),
                          next_id := Suc (next_id c)\<rparr>))))"

text \<open>
  \<^verbatim>\<open>
  def close_all_file_handles(self):
      for fh in self._file_handles.values():
          del fh
      self._file_handles.clear()
  \<close>
  \<open>del fh\<close> unbinds the loop variable and nothing else.
\<close>

definition close_all_file_handles :: "dm_catalog \<Rightarrow> dm_catalog" where
  "close_all_file_handles c = c\<lparr>file_handles := []\<rparr>"

text \<open>Every handle in the registry was constructed by this catalog.\<close>

definition handles_allocated :: "dm_catalog \<Rightarrow> bool" where
  "handles_allocated c = list_all (\<lambda>(p, h). h_id h < next_id c) (file_handles c)"

text \<open>Every cached handle is the handle of its key, and its file opens.\<close>

definition registry_consistent :: "'v dm_world \<Rightarrow> dm_catalog \<Rightarrow> bool" where
  "registry_consistent w c =
     list_all (\<lambda>(p, h). h_path h = p \<and> dw_open w p = None) (file_handles c)"

subsection \<open>Discovery of the datasets\<close>

text \<open>
  \<^verbatim>\<open>
  datasets = list()
  for fname in sorted(os.listdir(self.base_dir)):
      if not self._filename_re.match(fname):
          continue
      file_path = os.path.join(self.base_dir, fname)
      try:
          df = self._open_parquet(file_path)
      except (IOError, OSError):
          warnings.warn('Cannot access {}; skipped'.format(file_path))
          continue
      datasets.append(df)
  return datasets
  \<close>
\<close>

fun generate_datasets_loop ::
  "'v dm_world \<Rightarrow> string list \<Rightarrow> dm_catalog \<Rightarrow> handle list \<Rightarrow>
   py_error + (handle list \<times> dm_catalog)" where
  "generate_datasets_loop w [] c ds = Inr (ds, c)"
| "generate_datasets_loop w (fname # fnames) c ds =
     (if \<not> filename_re c fname then generate_datasets_loop w fnames c ds
      else (case open_parquet w (os_path_join (base_dir c) fname) c of
              (Inl e, c') \<Rightarrow>
                 if e = OSError then generate_datasets_loop w fnames c' ds else Inl e
            | (Inr df, c') \<Rightarrow> generate_datasets_loop w fnames c' (ds @ [df])))"

definition generate_datasets ::
  "'v dm_world \<Rightarrow> dm_catalog \<Rightarrow> py_error + (handle list \<times> dm_catalog)" where
  "generate_datasets w c =
     (case dw_dirs w (base_dir c) of
        None \<Rightarrow> Inl OSError
      | Some entries \<Rightarrow> generate_datasets_loop w (sort entries) c [])"

subsection \<open>Schema resolution\<close>

text \<open>
  \<open>_generate_schema_from_yaml\<close>: the document of the file; \<open>None\<close> (with a warning) when
  the file is empty. Opening a path that is not a file raises.
\<close>

definition generate_schema_from_yaml ::
  "'v dm_world \<Rightarrow> string \<Rightarrow> py_error + schema_dict option" where
  "generate_schema_from_yaml w spath =
     (case dw_files w spath of
        None \<Rightarrow> Inl OSError
      | Some YamlNull \<Rightarrow> Inr None
      | Some (YamlMap s) \<Rightarrow> Inr (Some s))"

text \<open>
  \<^verbatim>\<open>
  schema = {}
  for dataset in datasets:
      df = dataset.read().to_pandas()
      native_schema = {k: {'dtype': v} for k, v in df.dtypes.to_dict().items()}
      schema.update(native_schema)
      if native_schema:
          break
  return schema
  \<close>
\<close>

definition native_schema_of :: "(string \<times> string) list \<Rightarrow> schema_dict" where
  "native_schema_of dtypes =
     dict_of_pairs (map (\<lambda>(k, v). (k, \<lparr>ci_dtype = v, ci_default = None\<rparr>)) dtypes)"

fun schema_from_datafiles_loop ::
  "'v dm_world \<Rightarrow> handle list \<Rightarrow> schema_dict \<Rightarrow> py_error + schema_dict" where
  "schema_from_datafiles_loop w [] sch = Inr sch"
| "schema_from_datafiles_loop w (dataset # rest) sch =
     (case dw_read w (h_path dataset) of
        Inl e \<Rightarrow> Inl e
      | Inr dtypes \<Rightarrow>
         (let native_schema = native_schema_of dtypes;
              sch' = fold (\<lambda>(k, v). AList.update k v) native_schema sch
          in if native_schema \<noteq> [] then Inr sch'
             else schema_from_datafiles_loop w rest sch'))"

definition generate_schema_from_datafiles ::
  "'v dm_world \<Rightarrow> handle list \<Rightarrow> py_error + schema_dict" where
  "generate_schema_from_datafiles w ds = schema_from_datafiles_loop w ds []"

subsection \<open>Version detection and construction\<close>

text \<open>
  \<^verbatim>\<open>
  if any(col.endswith('_fluxSigma') for col in self._schema):
      dm_schema_version = 1
  elif any(col.endswith('_fluxErr') for col in self._schema):
      dm_schema_version = 2
  else:
      dm_schema_version = 3
  \<close>
  Iterating the schema dictionary gives its column names.
\<close>

definition dm_schema_version :: "schema_dict \<Rightarrow> nat" where
  "dm_schema_version sch =
     (if list_ex (\<lambda>col. endswith col ''_fluxSigma'') (map fst sch) then 1
      else if list_ex (\<lambda>col. endswith col ''_fluxErr'') (map fst sch) then 2
      else 3)"

text \<open>
  \<open>_generate_modifiers\<close> of the base class returns the empty dictionary whatever the
  version; it is a static method that the concrete readers override, so \<open>_subclass_init\<close>
  takes it as the parameter \<open>gen_modifiers\<close>.
\<close>

definition generate_modifiers :: "nat \<Rightarrow> (string \<times> string option) list" where
  "generate_modifiers dm_version = []"

text \<open>
  \<open>DC2DMCatalog._subclass_init\<close>, in the order of the source: \<open>base_dir\<close> (\<open>KeyError\<close> when
  absent), the \<open>ValueError\<close> for a path that is not a directory, the schema path and the
  declared schema, the empty handle registry, the datasets and the \<open>RuntimeError\<close> when
  there are none, the fall-back to the schema of the data files when the declared schema
  is \<open>None\<close> or empty, the modifiers, the metadata, the native filter quantities.
\<close>

definition dm_subclass_init ::
  "'v dm_world \<Rightarrow> (nat \<Rightarrow> (string \<times> string option) list) \<Rightarrow> dm_kwargs \<Rightarrow>
   py_error + dm_catalog" where
  "dm_subclass_init w gen_modifiers kw =
     (case dk_base_dir kw of
        None \<Rightarrow> Inl KeyError
      | Some bd \<Rightarrow>
         if dw_dirs w bd = None then Inl ValueError
         else
          (let spath = os_path_join bd
                 (case dk_schema_filename kw of None \<Rightarrow> ''schema.yaml'' | Some f \<Rightarrow> f)
           in case (if spath \<noteq> [] \<and> dw_files w spath \<noteq> None
                    then generate_schema_from_yaml w spath else Inr None) of
                Inl e \<Rightarrow> Inl e
              | Inr declared \<Rightarrow>
                 (let c0 = \<lparr>base_dir = bd, filename_re = dk_filename_re kw,
                            use_cache = (case dk_use_cache kw of None \<Rightarrow> True | Some b \<Rightarrow> b),
                            schema_path = spath, schema = [], file_handles = [],
                            datasets = [], quantity_modifiers = [],
                            native_filter_quantities = [], next_id = 0\<rparr>
                  in case generate_datasets w c0 of
                       Inl e \<Rightarrow> Inl e
                     | Inr (ds, c1) \<Rightarrow>
                        if ds = [] then Inl RuntimeError
                        else
                         (case (case declared of
                                  Some (x # xs) \<Rightarrow> Inr (x # xs)
                                | _ \<Rightarrow> generate_schema_from_datafiles w ds) of
                            Inl e \<Rightarrow> Inl e
                          | Inr sch \<Rightarrow>
                             (let mods = (if dk_is_dpdd kw
                                          then map (\<lambda>col. (col, None)) (map fst sch)
                                          else gen_modifiers (dm_schema_version sch))
                              in case dw_meta w of
                                   Some e \<Rightarrow> Inl e
                                 | None \<Rightarrow>
                                    Inr (c1\<lparr>datasets := ds, schema := sch,
                                            quantity_modifiers := mods,
                                            native_filter_quantities := map fst sch\<rparr>))))))"

subsection \<open>Writing the schema file\<close>

text \<open>
  \<open>shutil.copyfile(src, dst)\<close> and \<open>yaml.dump\<close> into \<open>open(path, 'w')\<close>; each is recorded in
  the log. Opening the empty path for writing raises.
\<close>

definition copyfile :: "string \<Rightarrow> string \<Rightarrow> 'v dm_world \<Rightarrow> 'v dm_world" where
  "copyfile src dst w =
     w\<lparr>dw_files := (dw_files w)(dst := dw_files w src),
       dw_log := dw_log w @ [CopyFile src dst]\<rparr>"

definition write_yaml :: "string \<Rightarrow> yaml_doc \<Rightarrow> 'v dm_world \<Rightarrow> 'v dm_world" where
  "write_yaml spath doc w =
     w\<lparr>dw_files := (dw_files w)(spath \<mapsto> doc),
       dw_log := dw_log w @ [WriteYaml spath doc]\<rparr>"

text \<open>
  \<^verbatim>\<open>
  for col, schema_this in schema.items():
      if schema_this['dtype'] == 'bool' and (
              col.endswith('_flag_bad') or col.endswith('_flag_noGoodPixels')):
          schema_this['default'] = True
  \<close>
\<close>

definition flag_default :: "string \<times> col_info \<Rightarrow> string \<times> col_info" where
  "flag_default = (\<lambda>(col, schema_this).
     if ci_dtype schema_this = ''bool'' \<and>
        (endswith col ''_flag_bad'' \<or> endswith col ''_flag_noGoodPixels'')
     then (col, schema_this\<lparr>ci_default := Some True\<rparr>)
     else (col, schema_this))"

text \<open>
  \<open>generate_schema_yaml\<close>: the exception raised (\<open>None\<close> when the call returns) and the
  world it leaves.
  \<^verbatim>\<open>
  if self._schema_path and os.path.isfile(self._schema_path):
      if not overwrite:
          raise RuntimeError(...)
      warnings.warn(...)
      shutil.copyfile(self._schema_path, self._schema_path + '.bak')
  schema = self._generate_schema_from_datafiles(self._datasets)
  for col, schema_this in schema.items(): ...
  with open(self._schema_path, 'w') as schema_stream:
      yaml.dump(schema, schema_stream)
  \<close>
\<close>

definition generate_schema_yaml ::
  "dm_catalog \<Rightarrow> bool \<Rightarrow> 'v dm_world \<Rightarrow> py_error option \<times> 'v dm_world" where
  "generate_schema_yaml c overwrite w =
     (let spath = schema_path c;
          present = (spath \<noteq> [] \<and> dw_files w spath \<noteq> None)
      in if present \<and> \<not> overwrite then (Some RuntimeError, w)
         else
          (let w1 = (if present then copyfile spath (spath @ ''.bak'') w else w)
           in case generate_schema_from_datafiles w1 (datasets c) of
                Inl e \<Rightarrow> (Some e, w1)
              | Inr sch \<Rightarrow>
                 if spath = [] then (Some OSError, w1)
                 else (None, write_yaml spath (YamlMap (map flag_default sch)) w1)))"

subsection \<open>Iteration\<close>

text \<open>
  \<^verbatim>\<open>
  def _iter_native_dataset(self, native_filters=None):
      for dataset in self._datasets:
          if native_filters is None:
              def native_quantity_getter(native_quantity, dataset=dataset):
                  data = dataset.read(columns=[native_quantity])
                  return data.to_pandas()[native_quantity].values
              yield native_quantity_getter
              if not self.use_cache:
                  dataset.clear_cache()
  \<close>
  The getter is a closure over its dataset. A run of the generator to exhaustion is the
  list of what it did, a \<open>Yield\<close> for each getter handed out and a \<open>ClearCache\<close> for each
  cache cleared, and the exception that ended it, if any. The filters are of an arbitrary
  type \<open>'f\<close>; \<open>None\<close> is Python's \<open>None\<close>.
\<close>

datatype dm_getter = NativeQuantityGetter handle

datatype iter_event = Yield dm_getter | ClearCache handle

fun iter_loop ::
  "'v dm_world \<Rightarrow> dm_catalog \<Rightarrow> 'f option \<Rightarrow> handle list \<Rightarrow>
   iter_event list \<times> py_error option" where
  "iter_loop w c native_filters [] = ([], None)"
| "iter_loop w c native_filters (dataset # rest) =
     (if native_filters = None then
        (if \<not> use_cache c then
           (case dw_clear_cache w dataset of
              Some e \<Rightarrow> ([Yield (NativeQuantityGetter dataset)], Some e)
            | None \<Rightarrow>
               (case iter_loop w c native_filters rest of
                  (evs, r) \<Rightarrow>
                    (Yield (NativeQuantityGetter dataset) # ClearCache dataset # evs, r)))
         else
           (case iter_loop w c native_filters rest of
              (evs, r) \<Rightarrow> (Yield (NativeQuantityGetter dataset) # evs, r)))
      else iter_loop w c native_filters rest)"

definition dm_iter_native_dataset ::
  "'v dm_world \<Rightarrow> dm_catalog \<Rightarrow> 'f option \<Rightarrow> iter_event list \<times> py_error option" where
  "dm_iter_native_dataset w c native_filters = iter_loop w c native_filters (datasets c)"

text \<open>The getters a run yielded, in order.\<close>

fun yielded :: "iter_event list \<Rightarrow> dm_getter list" where
  "yielded [] = []"
| "yielded (Yield g # evs) = g # yielded evs"
| "yielded (ClearCache h # evs) = yielded evs"

definition native_quantity_getter ::
  "'v dm_world \<Rightarrow> dm_getter \<Rightarrow> string \<Rightarrow> py_error + 'v list" where
  "native_quantity_getter w g native_quantity =
     (case g of NativeQuantityGetter dataset \<Rightarrow> dw_column w (h_path dataset) native_quantity)"

section \<open>Example inputs\<close>

text \<open>
  A small database for the relational reader: one file, the table \<open>truth\<close> with three
  columns, one of them of a declared type outside the coercion table.
\<close>

definition demo_truth_world :: "nat truth_world" where
  "demo_truth_world =
     \<lparr>tw_isfile = (\<lambda>p. p = ''truth.db''),
      tw_md5 = (\<lambda>p. ''0cc175b9c0f1b6a8''),
      tw_connect = (\<lambda>p. None),
      tw_column_descriptions = (\<lambda>p. Inr [(''a'', ''unique id'')]),
      tw_table_info = (\<lambda>p t. Inr [(''a'', ''BIGINT''), (''b'', ''DOUBLE''), (''c'', ''TEXT'')]),
      tw_execute = (\<lambda>p q. Inr [1, 2]),
      tw_np_dtype = (\<lambda>fs. None)\<rparr>"

definition demo_truth_kwargs :: "py_val \<Rightarrow> truth_kwargs" where
  "demo_truth_kwargs bf =
     \<lparr>kw_filename = Some ''truth.db'', kw_table_name = None, kw_is_static = None,
      kw_base_filters = bf, kw_md5 = None\<rparr>"

text \<open>
  A directory for the columnar catalog: one data file with two columns, and a schema file
  that declares two flux-uncertainty columns, one under each naming convention; and the
  catalog constructed from it.
\<close>

definition demo_dm_world :: "int dm_world" where
  "demo_dm_world =
     \<lparr>dw_dirs = (\<lambda>p. if p = ''/data'' then Some [''source_visit_1.parquet''] else None),
      dw_files = (\<lambda>p. if p = ''/data/schema.yaml''
                       then Some (YamlMap [(''g_fluxErr'', \<lparr>ci_dtype = ''float64'', ci_default = None\<rparr>),
                                           (''r_fluxSigma'', \<lparr>ci_dtype = ''float64'', ci_default = None\<rparr>)])
                       else None),
      dw_open = (\<lambda>p. None),
      dw_read = (\<lambda>p. Inr [(''g_flux'', ''float64''), (''g_flag_bad'', ''bool'')]),
      dw_column = (\<lambda>p q. Inr [1, 2]),
      dw_clear_cache = (\<lambda>h. None),
      dw_meta = None,
      dw_log = []\<rparr>"

definition demo_dm_kwargs :: dm_kwargs where
  "demo_dm_kwargs =
     \<lparr>dk_base_dir = Some ''/data'', dk_filename_re = (\<lambda>f. endswith f ''.parquet''),
      dk_use_cache = None, dk_schema_filename = None, dk_is_dpdd = False\<rparr>"

definition demo_dm_catalog :: dm_catalog where
  "demo_dm_catalog =
     \<lparr>base_dir = ''/data'', filename_re = (\<lambda>f. endswith f ''.parquet''), use_cache = True,
      schema_path = ''/data/schema.yaml'',
      schema = [(''g_fluxErr'', \<lparr>ci_dtype = ''float64'', ci_default = None\<rparr>),
                (''r_fluxSigma'', \<lparr>ci_dtype = ''float64'', ci_default = None\<rparr>)],
      file_handles = [(''/data/source_visit_1.parquet'',
                       \<lparr>h_id = 0, h_path = ''/data/source_visit_1.parquet''\<rparr>)],
      datasets = [\<lparr>h_id = 0, h_path = ''/data/source_visit_1.parquet''\<rparr>],
      quantity_modifiers = [], native_filter_quantities = [''g_fluxErr'', ''r_fluxSigma''],
      next_id = 1\<rparr>"

text \<open>The same directory without a schema file, its data file without columns.\<close>

definition demo_dm_world_no_schema :: "int dm_world" where
  "demo_dm_world_no_schema =
     demo_dm_world\<lparr>dw_files := (\<lambda>p. None), dw_read := (\<lambda>p. Inr [])\<rparr>"

section \<open>Properties of the flag mask\<close>

lemma flag_loop_equal_lengths:
  "\<forall>f \<in> set flags. length f = length out \<Longrightarrow>
   flag_loop out flags =
     Inr (map (\<lambda>i. out ! i \<and> (\<forall>f \<in> set flags. \<not> f ! i)) [0..<length out])"
proof (induction flags arbitrary: out)
  case Nil
  show ?case by (simp add: map_nth)
next
  case (Cons flag flags)
  let ?out' = "map2 (\<and>) out (np_invert flag)"
  have len: "length flag = length out" using Cons.prems by simp
  have step: "np_iand out (np_invert flag) = Inr ?out'"
    using len by (simp add: np_iand_def np_invert_def)
  have len': "length ?out' = length out"
    using len by (simp add: np_invert_def)
  have rest: "\<forall>f \<in> set flags. length f = length ?out'"
    using Cons.prems len' by simp
  have "flag_loop out (flag # flags) = flag_loop ?out' flags"
    using step by simp
  also have "\<dots> = Inr (map (\<lambda>i. ?out' ! i \<and> (\<forall>f \<in> set flags. \<not> f ! i)) [0..<length ?out'])"
    by (rule Cons.IH [OF rest])
  also have "\<dots> = Inr (map (\<lambda>i. out ! i \<and> (\<forall>f \<in> set (flag # flags). \<not> f ! i)) [0..<length out])"
    using len by (auto simp: np_invert_def)
  finally show ?case .
qed

lemma flag_loop_bad_length:
  "\<exists>f \<in> set flags. length f \<noteq> length out \<and> length f \<noteq> 1 \<Longrightarrow>
   \<exists>e. flag_loop out flags = Inl e"
proof (induction flags arbitrary: out)
  case Nil
  then show ?case by simp
next
  case (Cons flag flags)
  show ?case
  proof (cases "np_iand out (np_invert flag)")
    case (Inl e)
    then show ?thesis by simp
  next
    case (Inr out')
    then have len': "length out' = length out"
      by (auto simp: np_iand_def np_invert_def split: if_splits)
    from Inr have ok: "length flag = length out \<or> length flag = 1"
      by (auto simp: np_iand_def np_invert_def split: if_splits)
    with Cons.prems have "\<exists>f \<in> set flags. length f \<noteq> length out' \<and> length f \<noteq> 1"
      using len' by auto
    from Cons.IH [OF this] Inr show ?thesis by simp
  qed
qed

lemma flag_loop_good_lengths:
  "\<forall>f \<in> set flags. length f = length out \<or> length f = 1 \<Longrightarrow>
   \<exists>r. flag_loop out flags = Inr r \<and> length r = length out"
proof (induction flags arbitrary: out)
  case Nil
  then show ?case by simp
next
  case (Cons flag flags)
  have ok: "length flag = length out \<or> length flag = 1" using Cons.prems by simp
  obtain out' where step: "np_iand out (np_invert flag) = Inr out'"
    and len': "length out' = length out"
  proof (cases "length flag = length out")
    case True
    then show ?thesis using that by (simp add: np_iand_def np_invert_def)
  next
    case False
    then show ?thesis using that ok by (simp add: np_iand_def np_invert_def)
  qed
  with Cons.prems have "\<forall>f \<in> set flags. length f = length out' \<or> length f = 1"
    by simp
  from Cons.IH [OF this] step len' show ?case by simp
qed

text \<open>
  C2. For every non-empty list of boolean arrays that all have length \<open>n\<close>,
  \<open>create_basic_flag_mask\<close> returns an array of length \<open>n\<close> whose element at \<open>i\<close> is true
  exactly when every input array is false at \<open>i\<close>. A single all-false array of length 5
  gives the all-true array, and setting its element at \<open>i\<close> to true makes the result false
  at \<open>i\<close> and nowhere else.
\<close>

theorem create_basic_flag_mask_spec:
  "(flags \<noteq> [] \<and> (\<forall>f \<in> set flags. length f = n) \<longrightarrow>
      (\<exists>out. create_basic_flag_mask flags = Inr out \<and> length out = n \<and>
         (\<forall>i < n. out ! i \<longleftrightarrow> (\<forall>f \<in> set flags. \<not> f ! i)))) \<and>
   create_basic_flag_mask [replicate 5 False] = Inr (replicate 5 True) \<and>
   (i < 5 \<longrightarrow>
      create_basic_flag_mask [(replicate 5 False)[i := True]] =
        Inr ((replicate 5 True)[i := False]))"
proof (intro conjI impI)
  assume a: "flags \<noteq> [] \<and> (\<forall>f \<in> set flags. length f = n)"
  then obtain flag0 rest where fl: "flags = flag0 # rest" by (cases flags) auto
  have n: "length flag0 = n" using a fl by simp
  have all: "\<forall>f \<in> set flags. length f = length (np_ones n)"
    using a by (simp add: np_ones_def)
  have "create_basic_flag_mask flags = flag_loop (np_ones n) flags"
    using fl n by (simp add: create_basic_flag_mask_def)
  also have "\<dots> = Inr (map (\<lambda>i. np_ones n ! i \<and> (\<forall>f \<in> set flags. \<not> f ! i))
                         [0..<length (np_ones n)])"
    by (rule flag_loop_equal_lengths [OF all])
  finally have "create_basic_flag_mask flags =
      Inr (map (\<lambda>i. np_ones n ! i \<and> (\<forall>f \<in> set flags. \<not> f ! i)) [0..<n])"
    by (simp add: np_ones_def)
  then show "\<exists>out. create_basic_flag_mask flags = Inr out \<and> length out = n \<and>
         (\<forall>i < n. out ! i \<longleftrightarrow> (\<forall>f \<in> set flags. \<not> f ! i))"
    by (simp add: np_ones_def)
next
  show "create_basic_flag_mask [replicate 5 False] = Inr (replicate 5 True)"
    by (simp add: create_basic_flag_mask_def np_ones_def np_iand_def np_invert_def
        numeral_eq_Suc)
next
  assume "i < 5"
  then have "i = 0 \<or> i = 1 \<or> i = 2 \<or> i = 3 \<or> i = 4" by arith
  then show "create_basic_flag_mask [(replicate 5 False)[i := True]] =
        Inr ((replicate 5 True)[i := False])"
    by (auto simp: create_basic_flag_mask_def np_ones_def np_iand_def np_invert_def
        numeral_eq_Suc)
qed

theorem create_basic_flag_mask_spec_witness:
  "create_basic_flag_mask [[False, True, False], [False, False, True]] =
     Inr [True, False, False] \<and>
   create_basic_flag_mask [(replicate 5 False)[2 := True]] =
     Inr [True, True, False, True, True]"
proof -
  let ?flags = "[[False, True, False], [False, False, True]]"
  have h: "?flags \<noteq> [] \<and> (\<forall>f \<in> set ?flags. length f = 3)" by simp
  from create_basic_flag_mask_spec [of ?flags 3 2] h
  obtain out where o: "create_basic_flag_mask ?flags = Inr out" "length out = 3"
    and v: "\<forall>i < 3. out ! i \<longleftrightarrow> (\<forall>f \<in> set ?flags. \<not> f ! i)"
    and u: "create_basic_flag_mask [(replicate 5 False)[2 := True]] =
              Inr ((replicate 5 True)[2 := False])"
    by auto
  have "out ! 0" "\<not> out ! Suc 0" "\<not> out ! Suc (Suc 0)"
    using v [rule_format, of 0] v [rule_format, of "Suc 0"] v [rule_format, of "Suc (Suc 0)"]
    by simp_all
  then have "out = [True, False, False]"
    using o(2) by (auto simp: list_eq_iff_nth_eq less_Suc_eq numeral_3_eq_3)
  moreover have "(replicate 5 True)[2 := False] = [True, True, False, True, True]"
    by (simp add: numeral_eq_Suc)
  ultimately show ?thesis using o(1) u by simp
qed

text \<open>
  C6, as the claim states it, fails: two arrays of lengths 2 and 1 do not share a length,
  and the call returns normally, the second array broadcast over the first.
\<close>

theorem create_basic_flag_mask_broadcast_counterexample:
  "length [False, False] \<noteq> length [True] \<and>
   create_basic_flag_mask [[False, False], [True]] = Inr [False, False]"
  by (simp add: create_basic_flag_mask_def np_ones_def np_iand_def np_invert_def)

text \<open>
  C6, amended. \<open>create_basic_flag_mask\<close> fails with an error on the empty input list
  (\<open>IndexError\<close>), and it fails with an error exactly when the list is empty or some input
  array's length is neither the length of the first array nor 1; it returns no result
  in those cases. An array of length 1 is broadcast, not rejected.
\<close>

theorem create_basic_flag_mask_errors:
  "create_basic_flag_mask [] = Inl IndexError \<and>
   ((\<exists>e. create_basic_flag_mask flags = Inl e) \<longleftrightarrow>
      flags = [] \<or> (\<exists>f \<in> set flags. length f \<noteq> length (hd flags) \<and> length f \<noteq> 1))"
proof (intro conjI)
  show "create_basic_flag_mask [] = Inl IndexError"
    by (simp add: create_basic_flag_mask_def)
next
  show "(\<exists>e. create_basic_flag_mask flags = Inl e) \<longleftrightarrow>
      flags = [] \<or> (\<exists>f \<in> set flags. length f \<noteq> length (hd flags) \<and> length f \<noteq> 1)"
  proof (cases flags)
    case Nil
    then show ?thesis by (simp add: create_basic_flag_mask_def)
  next
    case (Cons flag0 rest)
    let ?out = "np_ones (length flag0)"
    have run: "create_basic_flag_mask flags = flag_loop ?out flags"
      using Cons by (simp add: create_basic_flag_mask_def)
    have len: "length ?out = length (hd flags)"
      using Cons by (simp add: np_ones_def)
    show ?thesis
    proof (cases "\<exists>f \<in> set flags. length f \<noteq> length (hd flags) \<and> length f \<noteq> 1")
      case True
      then have "\<exists>f \<in> set flags. length f \<noteq> length ?out \<and> length f \<noteq> 1"
        using len by simp
      from flag_loop_bad_length [OF this] True run show ?thesis by simp
    next
      case False
      then have "\<forall>f \<in> set flags. length f = length ?out \<or> length f = 1"
        using len by auto
      from flag_loop_good_lengths [OF this] False run Cons show ?thesis by auto
    qed
  qed
qed

theorem create_basic_flag_mask_errors_witness:
  "\<exists>e. create_basic_flag_mask [[False], [True, False]] = Inl e"
proof -
  let ?flags = "[[False], [True, False]]"
  have "\<exists>f \<in> set ?flags. length f \<noteq> length (hd ?flags) \<and> length f \<noteq> 1" by simp
  then show ?thesis
    using create_basic_flag_mask_errors [of ?flags] by blast
qed

section \<open>Properties of the relational reader\<close>

lemma map_of_fold_update:
  "map_of (fold (\<lambda>(k, v). AList.update k v) ps d) k =
     (case map_of (rev ps) k of Some v \<Rightarrow> Some v | None \<Rightarrow> map_of d k)"
proof (induction ps arbitrary: d)
  case Nil
  show ?case by simp
next
  case (Cons p ps)
  obtain k' v' where p: "p = (k', v')" by (cases p)
  show ?case
    by (simp add: p Cons.IH update_conv' map_add_def split: option.splits)
qed

lemma map_of_dict_of_pairs: "map_of (dict_of_pairs ps) = map_of (rev ps)"
  by (rule ext) (simp add: dict_of_pairs_def map_of_fold_update split: option.splits)

lemma distinct_fold_update:
  "distinct (map fst d) \<Longrightarrow> distinct (map fst (fold (\<lambda>(k, v). AList.update k v) ps d))"
  by (induction ps arbitrary: d) (auto simp: distinct_update)

lemma distinct_dict_of_pairs: "distinct (map fst (dict_of_pairs ps))"
  by (simp add: dict_of_pairs_def distinct_fold_update)

lemma map_of_fold_coerce:
  "distinct (map fst items) \<Longrightarrow>
   map_of (fold coerce_step items d) k =
     (case map_of items k of
        Some v \<Rightarrow> (case map_of type_dict v of Some t \<Rightarrow> Some t | None \<Rightarrow> map_of d k)
      | None \<Rightarrow> map_of d k)"
proof (induction items arbitrary: d)
  case Nil
  show ?case by simp
next
  case (Cons p items)
  obtain k' v' where p: "p = (k', v')" by (cases p)
  have d: "distinct (map fst items)" and nin: "k' \<notin> fst ` set items"
    using Cons.prems p by auto
  have none: "map_of items k' = None" using nin by (simp add: map_of_eq_None_iff)
  have step: "map_of (coerce_step p d) x =
      (if x = k' then (case map_of type_dict v' of Some t \<Rightarrow> Some t | None \<Rightarrow> map_of d x)
       else map_of d x)" for x
    by (simp add: p coerce_step_def update_conv' split: option.splits)
  have "map_of (fold coerce_step (p # items) d) k =
      (case map_of items k of
        Some v \<Rightarrow> (case map_of type_dict v of Some t \<Rightarrow> Some t
                   | None \<Rightarrow> map_of (coerce_step p d) k)
      | None \<Rightarrow> map_of (coerce_step p d) k)"
    by (simp add: Cons.IH [OF d])
  then show ?case
    using none by (auto simp: step [unfolded p] p split: option.splits)
qed

lemma type_dict_canonical:
  "(case map_of type_dict v of Some t \<Rightarrow> t | None \<Rightarrow> v) = spec_canonical_dtype v"
  by (simp add: type_dict_def spec_canonical_dtype_def)

lemma map_of_coerce_dtypes:
  "distinct (map fst d) \<Longrightarrow>
   map_of (coerce_dtypes d) k = map_option spec_canonical_dtype (map_of d k)"
  unfolding coerce_dtypes_def
  by (simp add: map_of_fold_coerce type_dict_canonical [symmetric] split: option.splits)

lemma truth_subclass_init_InrD:
  assumes "truth_subclass_init w kw = Inr r"
  obtains bfs rows where
    "kw_filename kw = Some (filename r)"
    "table_name r = (case kw_table_name kw of None \<Rightarrow> ''truth'' | Some t \<Rightarrow> t)"
    "init_base_filters (kw_base_filters kw) = Inr (base_filters r)"
    "tw_table_info w (filename r) (table_name r) = Inr rows"
    "native_quantity_dtypes r = coerce_dtypes (dict_of_pairs rows)"
  using assms
  by (auto simp: truth_subclass_init_def Let_def
      split: option.splits sum.splits if_splits)

lemma native_quantity_dtypes_lookup:
  assumes "truth_subclass_init w kw = Inr r"
    and "tw_table_info w (filename r) (table_name r) = Inr rows"
  shows "map_of (native_quantity_dtypes r) k =
           map_option spec_canonical_dtype (map_of (rev rows) k)"
proof -
  from assms(1) obtain rows' where
    t: "tw_table_info w (filename r) (table_name r) = Inr rows'"
    and d: "native_quantity_dtypes r = coerce_dtypes (dict_of_pairs rows')"
    by (rule truth_subclass_init_InrD)
  from t assms(2) have "rows' = rows" by simp
  with d show ?thesis
    by (simp add: map_of_coerce_dtypes distinct_dict_of_pairs map_of_dict_of_pairs)
qed

text \<open>
  C9. Whenever the construction's own checks pass (file name given and a file, checksum
  absent or matching, connection and introspection succeed), the construction raises no
  error whatever the declared types are, and a column whose declared type \<open>v\<close> is none of
  BIGINT, INT, FLOAT, DOUBLE keeps \<open>v\<close> in the per-column dtype table; those four are
  rewritten to int64, int32, float32 and float64. The declared type of a column \<open>k\<close> is
  \<open>map_of (rev rows) k\<close>: the dict comprehension keeps the last introspection row of a name.
\<close>

theorem undeclared_types_kept:
  assumes "kw_filename kw = Some fname"
    and "init_base_filters (kw_base_filters kw) = Inr bfs"
    and "tw_isfile w fname"
    and "case kw_md5 kw of None \<Rightarrow> True | Some m \<Rightarrow> m = [] \<or> tw_md5 w fname = m"
    and "tw_connect w fname = None"
    and "case kw_is_static kw of
           Some False \<Rightarrow> True
         | _ \<Rightarrow> \<exists>descr. tw_column_descriptions w fname = Inr descr"
    and "tw_table_info w fname (case kw_table_name kw of None \<Rightarrow> ''truth'' | Some t \<Rightarrow> t)
           = Inr rows"
    and "map_of (rev rows) k = Some v"
  shows "\<exists>r. truth_subclass_init w kw = Inr r \<and>
           (v \<notin> {''BIGINT'', ''INT'', ''FLOAT'', ''DOUBLE''} \<longrightarrow>
              map_of (native_quantity_dtypes r) k = Some v) \<and>
           (v = ''BIGINT'' \<longrightarrow> map_of (native_quantity_dtypes r) k = Some ''int64'') \<and>
           (v = ''INT'' \<longrightarrow> map_of (native_quantity_dtypes r) k = Some ''int32'') \<and>
           (v = ''FLOAT'' \<longrightarrow> map_of (native_quantity_dtypes r) k = Some ''float32'') \<and>
           (v = ''DOUBLE'' \<longrightarrow> map_of (native_quantity_dtypes r) k = Some ''float64'')"
proof -
  let ?t = "case kw_table_name kw of None \<Rightarrow> ''truth'' | Some t \<Rightarrow> t"
  have md5: "\<not> (case kw_md5 kw of None \<Rightarrow> False | Some m \<Rightarrow> m \<noteq> [] \<and> tw_md5 w fname \<noteq> m)"
    using assms(4) by (simp split: option.splits)
  obtain descr where descr:
    "(if (case kw_is_static kw of None \<Rightarrow> True | Some b \<Rightarrow> b)
      then tw_column_descriptions w fname else Inr []) = Inr descr"
    using assms(6) by (auto split: option.splits bool.splits)
  obtain r where r: "truth_subclass_init w kw = Inr r"
    and f: "filename r = fname" and t: "table_name r = ?t"
    using assms(1,2,3,5,7) md5 descr by (simp add: truth_subclass_init_def Let_def)
  have "map_of (native_quantity_dtypes r) k = Some (spec_canonical_dtype v)"
    using native_quantity_dtypes_lookup [OF r, of rows k] assms(7,8) f t by simp
  then show ?thesis
    using r by (auto simp: spec_canonical_dtype_def)
qed

lemma demo_truth_init:
  "init_base_filters bf = Inr bfs \<Longrightarrow>
   truth_subclass_init demo_truth_world (demo_truth_kwargs bf) =
     Inr \<lparr>filename = ''truth.db'', table_name = ''truth'', is_static = True,
          base_filters = bfs, column_descriptions = [(''a'', ''unique id'')],
          native_quantity_dtypes = [(''a'', ''int64''), (''b'', ''float64''), (''c'', ''TEXT'')]\<rparr>"
  by (simp add: truth_subclass_init_def demo_truth_world_def demo_truth_kwargs_def
      dict_of_pairs_def coerce_dtypes_def coerce_step_def type_dict_def)

theorem undeclared_types_kept_witness:
  "\<exists>r. truth_subclass_init demo_truth_world (demo_truth_kwargs PyNone) = Inr r \<and>
       map_of (native_quantity_dtypes r) ''c'' = Some ''TEXT''"
proof -
  let ?kw = "demo_truth_kwargs PyNone"
  have "kw_filename ?kw = Some ''truth.db''"
    and "init_base_filters (kw_base_filters ?kw) = Inr []"
    and "tw_isfile demo_truth_world ''truth.db''"
    and "case kw_md5 ?kw of None \<Rightarrow> True
         | Some m \<Rightarrow> m = [] \<or> tw_md5 demo_truth_world ''truth.db'' = m"
    and "tw_connect demo_truth_world ''truth.db'' = None"
    and "case kw_is_static ?kw of
           Some False \<Rightarrow> True
         | _ \<Rightarrow> \<exists>descr. tw_column_descriptions demo_truth_world ''truth.db'' = Inr descr"
    and "tw_table_info demo_truth_world ''truth.db''
           (case kw_table_name ?kw of None \<Rightarrow> ''truth'' | Some t \<Rightarrow> t)
           = Inr [(''a'', ''BIGINT''), (''b'', ''DOUBLE''), (''c'', ''TEXT'')]"
    and "map_of (rev [(''a'', ''BIGINT''), (''b'', ''DOUBLE''), (''c'', ''TEXT'')]) ''c''
           = Some ''TEXT''"
    by (simp_all add: demo_truth_world_def demo_truth_kwargs_def init_base_filters_def)
  from undeclared_types_kept [OF this] show ?thesis by auto
qed

lemma where_clause_two:
  "query_where_clause [PyStr f1, PyStr f2] = Inr (''WHERE ('' @ f1 @ '') AND ('' @ f2 @ '')'')"
  by (simp add: query_where_clause_def py_join_def)

text \<open>
  C1. A reader constructed with base filters \<open>["x>0"]\<close>, iterated with the call-time
  filters \<open>["y<5"]\<close>, yields one getter; called on \<open>["a", "b"]\<close> it executes exactly
  \<open>SELECT a, b FROM <table> WHERE (x>0) AND (y<5);\<close> and returns the rows of that query under
  the record dtype that maps the declared types of \<open>a\<close> and \<open>b\<close> through the table
  BIGINT to int64, INT to int32, FLOAT to float32, DOUBLE to float64 (provided numpy
  accepts that dtype).
\<close>

theorem relational_query_and_dtype:
  assumes init: "truth_subclass_init w kw = Inr r"
    and bf: "kw_base_filters kw = PySeq [PyStr ''x>0'']"
    and ti: "tw_table_info w (filename r) (table_name r) = Inr rows"
    and ta: "map_of (rev rows) ''a'' = Some ta"
    and tb: "map_of (rev rows) ''b'' = Some tb"
    and np: "tw_np_dtype w [(''a'', spec_canonical_dtype ta), (''b'', spec_canonical_dtype tb)]
               = None"
  shows "\<exists>g. truth_iter_native_dataset r (Some [''y<5'']) = Inr [g] \<and>
           getter_query g [''a'', ''b''] =
             ''SELECT a, b FROM '' @ table_name r @ '' WHERE (x>0) AND (y<5);'' \<and>
           dc2_truth_native_quantity_getter w g [''a'', ''b''] =
             (case tw_execute w (filename r)
                     (''SELECT a, b FROM '' @ table_name r @ '' WHERE (x>0) AND (y<5);'') of
                Inl e \<Rightarrow> Inl e
              | Inr rs \<Rightarrow>
                  Inr \<lparr>sa_dtype = [(''a'', spec_canonical_dtype ta),
                                   (''b'', spec_canonical_dtype tb)],
                       sa_rows = rs\<rparr>)"
proof -
  from init obtain bfs where "init_base_filters (kw_base_filters kw) = Inr (base_filters r)"
    by (rule truth_subclass_init_InrD)
  then have bfs: "base_filters r = [PyStr ''x>0'']"
    using bf by (simp add: init_base_filters_def)
  let ?g = "\<lparr>g_reader = r, g_where = ''WHERE (x>0) AND (y<5)''\<rparr>"
  have it: "truth_iter_native_dataset r (Some [''y<5'']) = Inr [?g]"
    by (simp add: truth_iter_native_dataset_def all_filters_def bfs where_clause_two)
  have q: "getter_query ?g [''a'', ''b''] =
             ''SELECT a, b FROM '' @ table_name r @ '' WHERE (x>0) AND (y<5);''"
    by (simp add: getter_query_def)
  have fa: "map_of (native_quantity_dtypes r) ''a'' = Some (spec_canonical_dtype ta)"
    and fb: "map_of (native_quantity_dtypes r) ''b'' = Some (spec_canonical_dtype tb)"
    using native_quantity_dtypes_lookup [OF init ti] ta tb by simp_all
  have dt: "dtype_fields (native_quantity_dtypes r) [''a'', ''b''] =
              Some [(''a'', spec_canonical_dtype ta), (''b'', spec_canonical_dtype tb)]"
    using fa fb by simp
  have "dc2_truth_native_quantity_getter w ?g [''a'', ''b''] =
             (case tw_execute w (filename r)
                     (''SELECT a, b FROM '' @ table_name r @ '' WHERE (x>0) AND (y<5);'') of
                Inl e \<Rightarrow> Inl e
              | Inr rs \<Rightarrow>
                  Inr \<lparr>sa_dtype = [(''a'', spec_canonical_dtype ta),
                                   (''b'', spec_canonical_dtype tb)],
                       sa_rows = rs\<rparr>)"
    unfolding dc2_truth_native_quantity_getter_def
    by (simp add: dt np q del: dtype_fields.simps)
  with it q show ?thesis by blast
qed

theorem relational_query_and_dtype_witness:
  "\<exists>g. truth_iter_native_dataset
          \<lparr>filename = ''truth.db'', table_name = ''truth'', is_static = True,
           base_filters = [PyStr ''x>0''], column_descriptions = [(''a'', ''unique id'')],
           native_quantity_dtypes =
             [(''a'', ''int64''), (''b'', ''float64''), (''c'', ''TEXT'')]\<rparr>
          (Some [''y<5'']) = Inr [g] \<and>
       getter_query g [''a'', ''b''] = ''SELECT a, b FROM truth WHERE (x>0) AND (y<5);'' \<and>
       dc2_truth_native_quantity_getter demo_truth_world g [''a'', ''b''] =
         Inr \<lparr>sa_dtype = [(''a'', ''int64''), (''b'', ''float64'')], sa_rows = [1, 2]\<rparr>"
proof -
  let ?kw = "demo_truth_kwargs (PySeq [PyStr ''x>0''])"
  let ?r = "\<lparr>filename = ''truth.db'', table_name = ''truth'', is_static = True,
           base_filters = [PyStr ''x>0''], column_descriptions = [(''a'', ''unique id'')],
           native_quantity_dtypes =
             [(''a'', ''int64''), (''b'', ''float64''), (''c'', ''TEXT'')]\<rparr>"
  let ?rows = "[(''a'', ''BIGINT''), (''b'', ''DOUBLE''), (''c'', ''TEXT'')]"
  have init: "truth_subclass_init demo_truth_world ?kw = Inr ?r"
    by (rule demo_truth_init) (simp add: init_base_filters_def)
  have bf: "kw_base_filters ?kw = PySeq [PyStr ''x>0'']"
    by (simp add: demo_truth_kwargs_def)
  have ti: "tw_table_info demo_truth_world (filename ?r) (table_name ?r) = Inr ?rows"
    by (simp add: demo_truth_world_def)
  have ta: "map_of (rev ?rows) ''a'' = Some ''BIGINT''"
    and tb: "map_of (rev ?rows) ''b'' = Some ''DOUBLE''"
    by simp_all
  have np: "tw_np_dtype demo_truth_world
              [(''a'', spec_canonical_dtype ''BIGINT''), (''b'', spec_canonical_dtype ''DOUBLE'')]
              = None"
    by (simp add: demo_truth_world_def)
  have ex: "tw_execute demo_truth_world ''truth.db'' q = Inr [1, 2]" for q
    by (simp add: demo_truth_world_def)
  from relational_query_and_dtype [OF init bf ti ta tb np]
  show ?thesis
    by (simp add: ex spec_canonical_dtype_def)
qed

text \<open>
  C10. In a constructed reader a non-empty string \<open>base_filters\<close> is the one-element
  tuple of that string, and is one parenthesised WHERE predicate; \<open>None\<close> (or an absent
  key), the empty string and the empty list give the empty tuple; and with empty base
  filters an iteration call without call-time filters yields the getter whose WHERE
  clause is empty, so the query is \<open>SELECT ... FROM <table> ;\<close>.
\<close>

theorem base_filters_normalised:
  "(truth_subclass_init w kw = Inr r \<longrightarrow>
      (kw_base_filters kw = PyStr s \<and> s \<noteq> [] \<longrightarrow>
         base_filters r = [PyStr s] \<and>
         query_where_clause (all_filters r None) = Inr (''WHERE ('' @ s @ '')'')) \<and>
      (kw_base_filters kw = PyNone \<or> kw_base_filters kw = PyStr [] \<or>
       kw_base_filters kw = PySeq [] \<longrightarrow> base_filters r = [])) \<and>
   (base_filters r' = [] \<and> (nf = None \<or> nf = Some []) \<longrightarrow>
      truth_iter_native_dataset r' nf = Inr [\<lparr>g_reader = r', g_where = []\<rparr>] \<and>
      getter_query \<lparr>g_reader = r', g_where = []\<rparr> qs =
        ''SELECT '' @ join '', '' qs @ '' FROM '' @ table_name r' @ '' ;'')"
proof (intro conjI impI)
  assume init: "truth_subclass_init w kw = Inr r"
  then have b: "init_base_filters (kw_base_filters kw) = Inr (base_filters r)"
    by (rule truth_subclass_init_InrD)
  {
    assume s: "kw_base_filters kw = PyStr s \<and> s \<noteq> []"
    with b show "base_filters r = [PyStr s]"
      by (simp add: init_base_filters_def)
    then show "query_where_clause (all_filters r None) = Inr (''WHERE ('' @ s @ '')'')"
      by (simp add: all_filters_def query_where_clause_def py_join_def)
  }
  {
    assume "kw_base_filters kw = PyNone \<or> kw_base_filters kw = PyStr [] \<or>
       kw_base_filters kw = PySeq []"
    with b show "base_filters r = []"
      by (auto simp: init_base_filters_def)
  }
next
  assume a: "base_filters r' = [] \<and> (nf = None \<or> nf = Some [])"
  then show "truth_iter_native_dataset r' nf = Inr [\<lparr>g_reader = r', g_where = []\<rparr>]"
    by (auto simp: truth_iter_native_dataset_def all_filters_def query_where_clause_def)
next
  show "getter_query \<lparr>g_reader = r', g_where = []\<rparr> qs =
        ''SELECT '' @ join '', '' qs @ '' FROM '' @ table_name r' @ '' ;''"
    by (simp add: getter_query_def)
qed

theorem base_filters_normalised_witness:
  "\<exists>r r'. truth_subclass_init demo_truth_world (demo_truth_kwargs (PyStr ''x>0'')) = Inr r \<and>
     base_filters r = [PyStr ''x>0''] \<and>
     query_where_clause (all_filters r None) = Inr ''WHERE (x>0)'' \<and>
     truth_subclass_init demo_truth_world (demo_truth_kwargs PyNone) = Inr r' \<and>
     base_filters r' = [] \<and>
     truth_iter_native_dataset r' None = Inr [\<lparr>g_reader = r', g_where = []\<rparr>] \<and>
     getter_query \<lparr>g_reader = r', g_where = []\<rparr> [''a'', ''b''] = ''SELECT a, b FROM truth ;''"
proof -
  let ?kw = "demo_truth_kwargs (PyStr ''x>0'')"
  obtain r where r: "truth_subclass_init demo_truth_world ?kw = Inr r"
    and tr: "table_name r = ''truth''"
    using demo_truth_init [of "PyStr ''x>0''"] by (simp add: init_base_filters_def)
  obtain r' where r': "truth_subclass_init demo_truth_world (demo_truth_kwargs PyNone) = Inr r'"
    and b': "base_filters r' = []" and t': "table_name r' = ''truth''"
    using demo_truth_init [of PyNone] by (simp add: init_base_filters_def)
  have kw: "kw_base_filters ?kw = PyStr ''x>0'' \<and> ''x>0'' \<noteq> []"
    by (simp add: demo_truth_kwargs_def)
  from base_filters_normalised [of demo_truth_world ?kw r "''x>0''" r' None "[''a'', ''b'']"]
    r kw b'
  have "base_filters r = [PyStr ''x>0'']"
    and "query_where_clause (all_filters r None) = Inr ''WHERE (x>0)''"
    and "truth_iter_native_dataset r' None = Inr [\<lparr>g_reader = r', g_where = []\<rparr>]"
    and "getter_query \<lparr>g_reader = r', g_where = []\<rparr> [''a'', ''b''] = ''SELECT a, b FROM truth ;''"
    by (simp_all add: t')
  with r r' b' show ?thesis by blast
qed

section \<open>Properties of the columnar catalog\<close>

lemma demo_join: "os_path_join ''/data'' ''source_visit_1.parquet'' = ''/data/source_visit_1.parquet''"
  and demo_join_schema: "os_path_join ''/data'' ''schema.yaml'' = ''/data/schema.yaml''"
  by (simp_all add: os_path_join_def)

lemma demo_dm_init:
  "dm_subclass_init demo_dm_world generate_modifiers demo_dm_kwargs = Inr demo_dm_catalog"
  by (simp add: dm_subclass_init_def demo_dm_world_def demo_dm_kwargs_def demo_dm_catalog_def
      demo_join demo_join_schema generate_datasets_def open_parquet_def endswith_def
      generate_schema_from_yaml_def generate_modifiers_def Let_def)

lemma demo_dm_init_no_schema:
  "dm_subclass_init demo_dm_world_no_schema generate_modifiers demo_dm_kwargs =
     Inr (demo_dm_catalog\<lparr>schema := [], native_filter_quantities := []\<rparr>)"
  by (simp add: dm_subclass_init_def demo_dm_world_no_schema_def demo_dm_world_def
      demo_dm_kwargs_def demo_dm_catalog_def
      demo_join demo_join_schema generate_datasets_def open_parquet_def endswith_def
      generate_schema_from_datafiles_def native_schema_of_def dict_of_pairs_def
      generate_modifiers_def Let_def)

text \<open>
  C5. Version detection is first-match-wins in the order legacy, intermediate, newest:
  the tag is 1 as soon as some column ends with \<open>_fluxSigma\<close>, whatever else is present
  (so also when other columns end with \<open>_fluxErr\<close>); it is 2 when no column ends with
  \<open>_fluxSigma\<close> and some column ends with \<open>_fluxErr\<close>; it is 3 when neither suffix occurs.
  A catalog constructed without \<open>is_dpdd\<close> gets the modifiers of exactly that tag.
\<close>

theorem dm_schema_version_priority:
  "((\<exists>col \<in> set (map fst sch). endswith col ''_fluxSigma'') \<longrightarrow> dm_schema_version sch = 1) \<and>
   (\<not> (\<exists>col \<in> set (map fst sch). endswith col ''_fluxSigma'') \<and>
    (\<exists>col \<in> set (map fst sch). endswith col ''_fluxErr'') \<longrightarrow> dm_schema_version sch = 2) \<and>
   (\<not> (\<exists>col \<in> set (map fst sch). endswith col ''_fluxSigma'') \<and>
    \<not> (\<exists>col \<in> set (map fst sch). endswith col ''_fluxErr'') \<longrightarrow> dm_schema_version sch = 3) \<and>
   (dm_subclass_init w gen_modifiers kw = Inr c \<and> \<not> dk_is_dpdd kw \<longrightarrow>
      quantity_modifiers c = gen_modifiers (dm_schema_version (schema c)))"
proof (intro conjI impI)
  assume "dm_subclass_init w gen_modifiers kw = Inr c \<and> \<not> dk_is_dpdd kw"
  then show "quantity_modifiers c = gen_modifiers (dm_schema_version (schema c))"
    by (auto simp: dm_subclass_init_def Let_def
        split: option.splits sum.splits if_splits prod.splits list.splits)
qed (simp_all add: dm_schema_version_def list_ex_iff)

theorem dm_schema_version_priority_witness:
  "dm_schema_version [(''g_fluxErr'', \<lparr>ci_dtype = ''float64'', ci_default = None\<rparr>),
                      (''r_fluxSigma'', \<lparr>ci_dtype = ''float64'', ci_default = None\<rparr>)] = 1 \<and>
   dm_schema_version [(''g_fluxErr'', \<lparr>ci_dtype = ''float64'', ci_default = None\<rparr>)] = 2 \<and>
   dm_schema_version [(''g_flux'', \<lparr>ci_dtype = ''float64'', ci_default = None\<rparr>)] = 3 \<and>
   quantity_modifiers demo_dm_catalog =
     generate_modifiers (dm_schema_version (schema demo_dm_catalog))"
proof -
  let ?i = "\<lparr>ci_dtype = ''float64'', ci_default = None\<rparr>"
  let ?s1 = "[(''g_fluxErr'', ?i), (''r_fluxSigma'', ?i)]"
  let ?s2 = "[(''g_fluxErr'', ?i)]"
  let ?s3 = "[(''g_flux'', ?i)]"
  have 1: "\<exists>col \<in> set (map fst ?s1). endswith col ''_fluxSigma''"
    by (simp add: endswith_def)
  have 2: "\<not> (\<exists>col \<in> set (map fst ?s2). endswith col ''_fluxSigma'') \<and>
           (\<exists>col \<in> set (map fst ?s2). endswith col ''_fluxErr'')"
    by (simp add: endswith_def)
  have 3: "\<not> (\<exists>col \<in> set (map fst ?s3). endswith col ''_fluxSigma'') \<and>
           \<not> (\<exists>col \<in> set (map fst ?s3). endswith col ''_fluxErr'')"
    by (simp add: endswith_def)
  from dm_schema_version_priority [of ?s1] 1 have "dm_schema_version ?s1 = 1" by blast
  moreover from dm_schema_version_priority [of ?s2] 2 have "dm_schema_version ?s2 = 2" by blast
  moreover from dm_schema_version_priority [of ?s3] 3 have "dm_schema_version ?s3 = 3" by blast
  moreover have "dm_subclass_init demo_dm_world generate_modifiers demo_dm_kwargs =
        Inr demo_dm_catalog \<and> \<not> dk_is_dpdd demo_dm_kwargs"
    by (simp add: demo_dm_init) (simp add: demo_dm_kwargs_def)
  with dm_schema_version_priority [where w = demo_dm_world and gen_modifiers = generate_modifiers
      and kw = demo_dm_kwargs and c = demo_dm_catalog]
  have "quantity_modifiers demo_dm_catalog =
     generate_modifiers (dm_schema_version (schema demo_dm_catalog))" by blast
  ultimately show ?thesis by simp
qed

lemma open_parquet_Inr:
  assumes "open_parquet w p c = (Inr h, c1)"
  shows "map_of (file_handles c1) p = Some h"
    and "handles_allocated c \<Longrightarrow> handles_allocated c1 \<and> h_id h < next_id c1"
proof -
  show "map_of (file_handles c1) p = Some h"
    using assms
    by (auto simp: open_parquet_def Let_def update_conv' split: option.splits)
next
  assume inv: "handles_allocated c"
  show "handles_allocated c1 \<and> h_id h < next_id c1"
  proof (cases "map_of (file_handles c) p")
    case (Some h0)
    with assms have "h0 = h" "c1 = c" by (simp_all add: open_parquet_def)
    moreover from Some have "(p, h0) \<in> set (file_handles c)" by (rule map_of_SomeD)
    ultimately show ?thesis
      using inv by (auto simp: handles_allocated_def list_all_iff)
  next
    case None
    with assms have h: "h = \<lparr>h_id = next_id c, h_path = p\<rparr>"
      and c1: "c1 = c\<lparr>file_handles := AList.update p h (file_handles c),
                       next_id := Suc (next_id c)\<rparr>"
      by (auto simp: open_parquet_def Let_def split: option.splits)
    have "set (AList.update p h al) \<subseteq> insert (p, h) (set al)" for al
      by (induction al) auto
    then have sub: "set (AList.update p h (file_handles c)) \<subseteq> insert (p, h) (set (file_handles c))" .
    have "h_id g < Suc (next_id c)" if "(q, g) \<in> set (AList.update p h (file_handles c))" for q g
    proof -
      from that sub have "(q, g) = (p, h) \<or> (q, g) \<in> set (file_handles c)" by blast
      then show ?thesis
      proof
        assume "(q, g) = (p, h)"
        then show ?thesis using h by simp
      next
        assume "(q, g) \<in> set (file_handles c)"
        with inv have "h_id g < next_id c"
          by (auto simp: handles_allocated_def list_all_iff)
        then show ?thesis by simp
      qed
    qed
    then have "handles_allocated c1"
      unfolding c1 by (auto simp: handles_allocated_def list_all_iff)
    moreover have "h_id h < next_id c1" using h c1 by simp
    ultimately show ?thesis by simp
  qed
qed

text \<open>
  C8. In a catalog whose registry holds only handles it constructed, once a path has
  been opened a second open of the same path changes nothing and returns the identical
  handle; after \<open>close_all_file_handles\<close> the registry is empty, and an open of the same
  path that succeeds returns a newly constructed handle, distinct from the first, which
  is then the only entry of the registry; it succeeds whenever the file opens.
\<close>

theorem handle_cache:
  assumes inv: "handles_allocated c"
    and op: "open_parquet w path c = (Inr h, c1)"
  shows "open_parquet w' path c1 = (Inr h, c1) \<and>
         file_handles (close_all_file_handles c1) = [] \<and>
         (open_parquet w' path (close_all_file_handles c1) = (Inr h', c2) \<longrightarrow>
            h' \<noteq> h \<and> h' = \<lparr>h_id = next_id c1, h_path = path\<rparr> \<and>
            file_handles c2 = [(path, h')]) \<and>
         (dw_open w' path = None \<longrightarrow>
            (\<exists>h'' c3. open_parquet w' path (close_all_file_handles c1) = (Inr h'', c3)))"
proof -
  have cached: "map_of (file_handles c1) path = Some h"
    by (rule open_parquet_Inr(1) [OF op])
  have old: "h_id h < next_id c1"
    using open_parquet_Inr(2) [OF op inv] by simp
  have 1: "open_parquet w' path c1 = (Inr h, c1)"
    using cached by (simp add: open_parquet_def)
  have 2: "file_handles (close_all_file_handles c1) = []"
    by (simp add: close_all_file_handles_def)
  have 3: "h' \<noteq> h \<and> h' = \<lparr>h_id = next_id c1, h_path = path\<rparr> \<and> file_handles c2 = [(path, h')]"
    if "open_parquet w' path (close_all_file_handles c1) = (Inr h', c2)"
    using that old
    by (auto simp: open_parquet_def close_all_file_handles_def Let_def split: option.splits)
  have 4: "\<exists>h'' c3. open_parquet w' path (close_all_file_handles c1) = (Inr h'', c3)"
    if "dw_open w' path = None"
    using that by (simp add: open_parquet_def close_all_file_handles_def Let_def)
  from 1 2 3 4 show ?thesis by blast
qed

theorem handle_cache_witness:
  "open_parquet demo_dm_world ''/data/source_visit_1.parquet'' demo_dm_catalog =
     (Inr \<lparr>h_id = 0, h_path = ''/data/source_visit_1.parquet''\<rparr>, demo_dm_catalog) \<and>
   file_handles (close_all_file_handles demo_dm_catalog) = [] \<and>
   fst (open_parquet demo_dm_world ''/data/source_visit_1.parquet''
          (close_all_file_handles demo_dm_catalog)) =
     Inr \<lparr>h_id = 1, h_path = ''/data/source_visit_1.parquet''\<rparr> \<and>
   \<lparr>h_id = 1, h_path = ''/data/source_visit_1.parquet''\<rparr> \<noteq>
     \<lparr>h_id = 0, h_path = ''/data/source_visit_1.parquet''\<rparr>"
proof -
  let ?p = "''/data/source_visit_1.parquet''"
  let ?h = "\<lparr>h_id = 0, h_path = ?p\<rparr>"
  let ?h' = "\<lparr>h_id = 1, h_path = ?p\<rparr>"
  let ?c2 = "demo_dm_catalog\<lparr>file_handles := [(?p, ?h')], next_id := 2\<rparr>"
  have inv: "handles_allocated demo_dm_catalog"
    by (simp add: handles_allocated_def demo_dm_catalog_def)
  have op: "open_parquet demo_dm_world ?p demo_dm_catalog = (Inr ?h, demo_dm_catalog)"
    by (simp add: open_parquet_def demo_dm_catalog_def)
  have re: "open_parquet demo_dm_world ?p (close_all_file_handles demo_dm_catalog) = (Inr ?h', ?c2)"
    by (simp add: open_parquet_def close_all_file_handles_def demo_dm_catalog_def
        demo_dm_world_def Let_def numeral_2_eq_2)
  from handle_cache [OF inv op, of demo_dm_world ?h' ?c2] re op
  show ?thesis by simp
qed

lemma generate_datasets_loop_allocated:
  "handles_allocated c \<Longrightarrow> generate_datasets_loop w fnames c ds = Inr (ds', c') \<Longrightarrow>
   handles_allocated c'"
proof (induction fnames arbitrary: c ds)
  case Nil
  then show ?case by simp
next
  case (Cons fname fnames)
  show ?case
  proof (cases "filename_re c fname")
    case False
    with Cons show ?thesis by simp
  next
    case True
    obtain r c1 where op: "open_parquet w (os_path_join (base_dir c) fname) c = (r, c1)"
      by (cases "open_parquet w (os_path_join (base_dir c) fname) c")
    show ?thesis
    proof (cases r)
      case (Inl e)
      with op have "c1 = c"
        by (auto simp: open_parquet_def Let_def split: option.splits)
      with Cons.prems True op Inl have "generate_datasets_loop w fnames c ds = Inr (ds', c')"
        by (simp split: if_splits)
      from Cons.IH [OF Cons.prems(1) this] show ?thesis .
    next
      case (Inr h)
      with op Cons.prems(1) have "handles_allocated c1"
        using open_parquet_Inr(2) by blast
      moreover from Cons.prems(2) True op Inr
      have "generate_datasets_loop w fnames c1 (ds @ [h]) = Inr (ds', c')" by simp
      ultimately show ?thesis by (rule Cons.IH)
    qed
  qed
qed

lemma dm_subclass_init_handles_allocated:
  assumes "dm_subclass_init w gen_modifiers kw = Inr c"
  shows "handles_allocated c"
proof -
  from assms obtain bd where bd: "dk_base_dir kw = Some bd"
    by (auto simp: dm_subclass_init_def split: option.splits)
  let ?spath = "os_path_join bd
                 (case dk_schema_filename kw of None \<Rightarrow> ''schema.yaml'' | Some f \<Rightarrow> f)"
  let ?c0 = "\<lparr>base_dir = bd, filename_re = dk_filename_re kw,
              use_cache = (case dk_use_cache kw of None \<Rightarrow> True | Some b \<Rightarrow> b),
              schema_path = ?spath, schema = [], file_handles = [],
              datasets = [], quantity_modifiers = [],
              native_filter_quantities = [], next_id = 0\<rparr>"
  from assms bd obtain entries ds c1 where
    g: "generate_datasets_loop w (sort entries) ?c0 [] = Inr (ds, c1)"
    and c: "file_handles c = file_handles c1" "next_id c = next_id c1"
    by (auto simp: dm_subclass_init_def generate_datasets_def Let_def
        split: option.splits sum.splits if_splits prod.splits)
  have "handles_allocated ?c0" by (simp add: handles_allocated_def)
  from generate_datasets_loop_allocated [OF this g] c show ?thesis
    by (simp add: handles_allocated_def)
qed

lemma close_all_file_handles_allocated: "handles_allocated (close_all_file_handles c)"
  by (simp add: handles_allocated_def close_all_file_handles_def)

lemma schema_from_datafiles_loop_read:
  "dw_read w' = dw_read w \<Longrightarrow>
   schema_from_datafiles_loop w' ds sch = schema_from_datafiles_loop w ds sch"
  by (induction ds arbitrary: sch) (simp_all add: Let_def split: sum.splits)

lemma generate_schema_from_datafiles_copyfile:
  "generate_schema_from_datafiles (copyfile a b w) ds = generate_schema_from_datafiles w ds"
  unfolding generate_schema_from_datafiles_def
  by (rule schema_from_datafiles_loop_read) (simp add: copyfile_def)

text \<open>
  C7. When a schema file exists at the schema path: without \<open>overwrite\<close> the call raises
  \<open>RuntimeError\<close> and changes nothing; with \<open>overwrite\<close> it first copies the file to the
  path with the suffix \<open>.bak\<close>, and only then, when the schema was regenerated from the
  data files, writes the new schema to the schema path: the log of writes is the copy
  followed by the write, the backup holds the previous document, and when regeneration
  raises the schema file is left as it was (with its backup made).
\<close>

theorem generate_schema_yaml_backup:
  assumes sp: "schema_path c \<noteq> []"
    and old: "dw_files w (schema_path c) = Some old"
  shows "generate_schema_yaml c False w = (Some RuntimeError, w) \<and>
         (\<exists>r w'. generate_schema_yaml c True w = (r, w') \<and>
            dw_files w' (schema_path c @ ''.bak'') = Some old \<and>
            (case r of
               Some e \<Rightarrow>
                 generate_schema_from_datafiles w (datasets c) = Inl e \<and>
                 dw_files w' (schema_path c) = Some old \<and>
                 dw_log w' = dw_log w @ [CopyFile (schema_path c) (schema_path c @ ''.bak'')]
             | None \<Rightarrow>
                 (\<exists>sch. generate_schema_from_datafiles w (datasets c) = Inr sch \<and>
                    dw_files w' (schema_path c) = Some (YamlMap (map flag_default sch)) \<and>
                    dw_log w' = dw_log w @
                      [CopyFile (schema_path c) (schema_path c @ ''.bak''),
                       WriteYaml (schema_path c) (YamlMap (map flag_default sch))])))"
proof
  show "generate_schema_yaml c False w = (Some RuntimeError, w)"
    using sp old by (simp add: generate_schema_yaml_def Let_def)
next
  let ?sp = "schema_path c"
  let ?bak = "schema_path c @ ''.bak''"
  let ?w1 = "copyfile ?sp ?bak w"
  have ne: "?bak \<noteq> ?sp" by simp
  have f1: "dw_files ?w1 ?bak = Some old" "dw_files ?w1 ?sp = Some old"
    and l1: "dw_log ?w1 = dw_log w @ [CopyFile ?sp ?bak]"
    using old by (simp_all add: copyfile_def)
  show "\<exists>r w'. generate_schema_yaml c True w = (r, w') \<and>
            dw_files w' ?bak = Some old \<and>
            (case r of
               Some e \<Rightarrow>
                 generate_schema_from_datafiles w (datasets c) = Inl e \<and>
                 dw_files w' ?sp = Some old \<and>
                 dw_log w' = dw_log w @ [CopyFile ?sp ?bak]
             | None \<Rightarrow>
                 (\<exists>sch. generate_schema_from_datafiles w (datasets c) = Inr sch \<and>
                    dw_files w' ?sp = Some (YamlMap (map flag_default sch)) \<and>
                    dw_log w' = dw_log w @
                      [CopyFile ?sp ?bak, WriteYaml ?sp (YamlMap (map flag_default sch))]))"
  proof (cases "generate_schema_from_datafiles w (datasets c)")
    case (Inl e)
    then have "generate_schema_yaml c True w = (Some e, ?w1)"
      using sp old
      by (simp add: generate_schema_yaml_def Let_def generate_schema_from_datafiles_copyfile)
    then show ?thesis using f1 l1 Inl by simp
  next
    case (Inr sch)
    let ?doc = "YamlMap (map flag_default sch)"
    let ?w2 = "write_yaml ?sp ?doc ?w1"
    have "generate_schema_yaml c True w = (None, ?w2)"
      using sp old Inr
      by (simp add: generate_schema_yaml_def Let_def generate_schema_from_datafiles_copyfile)
    moreover have "dw_files ?w2 ?bak = Some old"
      using f1 ne by (simp add: write_yaml_def)
    moreover have "dw_files ?w2 ?sp = Some ?doc"
      by (simp add: write_yaml_def)
    moreover have "dw_log ?w2 = dw_log w @ [CopyFile ?sp ?bak, WriteYaml ?sp ?doc]"
      using l1 by (simp add: write_yaml_def)
    ultimately show ?thesis using Inr by simp
  qed
qed

theorem generate_schema_yaml_backup_witness:
  "generate_schema_yaml demo_dm_catalog False demo_dm_world = (Some RuntimeError, demo_dm_world) \<and>
   (\<exists>w'. generate_schema_yaml demo_dm_catalog True demo_dm_world = (None, w') \<and>
      dw_files w' ''/data/schema.yaml.bak'' = dw_files demo_dm_world ''/data/schema.yaml'' \<and>
      dw_files w' ''/data/schema.yaml'' =
        Some (YamlMap [(''g_flux'', \<lparr>ci_dtype = ''float64'', ci_default = None\<rparr>),
                       (''g_flag_bad'', \<lparr>ci_dtype = ''bool'', ci_default = Some True\<rparr>)]) \<and>
      dw_log w' =
        [CopyFile ''/data/schema.yaml'' ''/data/schema.yaml.bak'',
         WriteYaml ''/data/schema.yaml''
           (YamlMap [(''g_flux'', \<lparr>ci_dtype = ''float64'', ci_default = None\<rparr>),
                     (''g_flag_bad'', \<lparr>ci_dtype = ''bool'', ci_default = Some True\<rparr>)])])"
proof -
  let ?old = "YamlMap [(''g_fluxErr'', \<lparr>ci_dtype = ''float64'', ci_default = None\<rparr>),
                       (''r_fluxSigma'', \<lparr>ci_dtype = ''float64'', ci_default = None\<rparr>)]"
  let ?new = "[(''g_flux'', \<lparr>ci_dtype = ''float64'', ci_default = None\<rparr>),
               (''g_flag_bad'', \<lparr>ci_dtype = ''bool'', ci_default = None\<rparr>)]"
  have sp: "schema_path demo_dm_catalog \<noteq> []"
    and spv: "schema_path demo_dm_catalog = ''/data/schema.yaml''"
    by (simp_all add: demo_dm_catalog_def)
  have old: "dw_files demo_dm_world (schema_path demo_dm_catalog) = Some ?old"
    by (simp add: demo_dm_catalog_def demo_dm_world_def)
  have lg: "dw_log demo_dm_world = []"
    by (simp add: demo_dm_world_def)
  have gen: "generate_schema_from_datafiles demo_dm_world (datasets demo_dm_catalog) = Inr ?new"
    by (simp add: generate_schema_from_datafiles_def demo_dm_catalog_def demo_dm_world_def
        native_schema_of_def dict_of_pairs_def)
  have fd: "map flag_default ?new =
      [(''g_flux'', \<lparr>ci_dtype = ''float64'', ci_default = None\<rparr>),
       (''g_flag_bad'', \<lparr>ci_dtype = ''bool'', ci_default = Some True\<rparr>)]"
    by (simp add: flag_default_def endswith_def)
  from generate_schema_yaml_backup [OF sp old]
  obtain r w' where
    no: "generate_schema_yaml demo_dm_catalog False demo_dm_world = (Some RuntimeError, demo_dm_world)"
    and run: "generate_schema_yaml demo_dm_catalog True demo_dm_world = (r, w')"
    and bak: "dw_files w' (schema_path demo_dm_catalog @ ''.bak'') = Some ?old"
    and rest: "case r of
               Some e \<Rightarrow>
                 generate_schema_from_datafiles demo_dm_world (datasets demo_dm_catalog) = Inl e \<and>
                 dw_files w' (schema_path demo_dm_catalog) = Some ?old \<and>
                 dw_log w' = dw_log demo_dm_world @
                   [CopyFile (schema_path demo_dm_catalog) (schema_path demo_dm_catalog @ ''.bak'')]
             | None \<Rightarrow>
                 (\<exists>sch. generate_schema_from_datafiles demo_dm_world (datasets demo_dm_catalog) = Inr sch \<and>
                    dw_files w' (schema_path demo_dm_catalog) = Some (YamlMap (map flag_default sch)) \<and>
                    dw_log w' = dw_log demo_dm_world @
                      [CopyFile (schema_path demo_dm_catalog) (schema_path demo_dm_catalog @ ''.bak''),
                       WriteYaml (schema_path demo_dm_catalog) (YamlMap (map flag_default sch))])"
    by blast
  from rest gen have r: "r = None" by (cases r) simp_all
  with rest gen have "dw_files w' (schema_path demo_dm_catalog) = Some (YamlMap (map flag_default ?new))"
    and "dw_log w' = dw_log demo_dm_world @
           [CopyFile (schema_path demo_dm_catalog) (schema_path demo_dm_catalog @ ''.bak''),
            WriteYaml (schema_path demo_dm_catalog) (YamlMap (map flag_default ?new))]"
    by auto
  with no run r bak old show ?thesis
    unfolding fd spv lg by auto
qed

lemma generate_datasets_loop_no_match:
  "\<forall>f \<in> set fnames. \<not> filename_re c f \<Longrightarrow> generate_datasets_loop w fnames c ds = Inr (ds, c)"
  by (induction fnames) simp_all

lemma dm_subclass_init_InrD:
  assumes "dm_subclass_init w gen_modifiers kw = Inr c"
  shows "datasets c \<noteq> []"
    and "schema c = [] \<Longrightarrow> generate_schema_from_datafiles w (datasets c) = Inr []"
  using assms
  by (auto simp: dm_subclass_init_def Let_def
      split: option.splits sum.splits if_splits prod.splits list.splits)

text \<open>
  C4, as the claim states it, fails: with no schema file and a data file without columns
  the construction succeeds, and the resolved schema is empty.
\<close>

theorem dm_empty_schema_counterexample:
  "\<not> isl (dm_subclass_init demo_dm_world_no_schema generate_modifiers demo_dm_kwargs) \<and>
   schema (projr (dm_subclass_init demo_dm_world_no_schema generate_modifiers demo_dm_kwargs)) = []"
  by (simp add: demo_dm_init_no_schema)

text \<open>
  C4, amended. Construction raises \<open>ValueError\<close> when the base directory does not exist
  and \<open>RuntimeError\<close> when the directory exists and no entry matches the file name
  pattern. There is no ``no schema'' error: a successful construction has at least one
  dataset, and its schema is empty exactly in the case the claim excludes, when the
  declared schema gave nothing and inference from the data files returns the empty schema.
\<close>

theorem dm_construction_errors:
  "(dk_base_dir kw = Some bd \<and> dw_dirs w bd = None \<longrightarrow>
      dm_subclass_init w gen_modifiers kw = Inl ValueError) \<and>
   (dk_base_dir kw = Some bd \<and> dw_dirs w bd = Some entries \<and>
    (\<forall>f \<in> set entries. \<not> dk_filename_re kw f) \<longrightarrow>
      dm_subclass_init w gen_modifiers kw = Inl RuntimeError) \<and>
   (dm_subclass_init w gen_modifiers kw = Inr c \<longrightarrow>
      datasets c \<noteq> [] \<and>
      (schema c = [] \<longrightarrow> generate_schema_from_datafiles w (datasets c) = Inr []))"
proof (intro conjI impI)
  assume "dk_base_dir kw = Some bd \<and> dw_dirs w bd = None"
  then show "dm_subclass_init w gen_modifiers kw = Inl ValueError"
    by (simp add: dm_subclass_init_def)
next
  assume a: "dk_base_dir kw = Some bd \<and> dw_dirs w bd = Some entries \<and>
    (\<forall>f \<in> set entries. \<not> dk_filename_re kw f)"
  let ?spath = "os_path_join bd
                 (case dk_schema_filename kw of None \<Rightarrow> ''schema.yaml'' | Some f \<Rightarrow> f)"
  have "\<exists>declared. (if ?spath \<noteq> [] \<and> dw_files w ?spath \<noteq> None
                    then generate_schema_from_yaml w ?spath else Inr None) = Inr declared"
    by (auto simp: generate_schema_from_yaml_def split: yaml_doc.splits)
  then obtain declared where d: "(if ?spath \<noteq> [] \<and> dw_files w ?spath \<noteq> None
                    then generate_schema_from_yaml w ?spath else Inr None) = Inr declared" ..
  let ?c0 = "\<lparr>base_dir = bd, filename_re = dk_filename_re kw,
                            use_cache = (case dk_use_cache kw of None \<Rightarrow> True | Some b \<Rightarrow> b),
                            schema_path = ?spath, schema = [], file_handles = [],
                            datasets = [], quantity_modifiers = [],
                            native_filter_quantities = [], next_id = 0\<rparr>"
  have "\<forall>f \<in> set (sort entries). \<not> filename_re ?c0 f" using a by simp
  then have "generate_datasets_loop w (sort entries) ?c0 [] = Inr ([], ?c0)"
    by (rule generate_datasets_loop_no_match)
  then have "generate_datasets w ?c0 = Inr ([], ?c0)"
    using a by (simp add: generate_datasets_def)
  then show "dm_subclass_init w gen_modifiers kw = Inl RuntimeError"
    using a d by (simp add: dm_subclass_init_def Let_def)
next
  assume "dm_subclass_init w gen_modifiers kw = Inr c"
  then show "datasets c \<noteq> []" by (rule dm_subclass_init_InrD)
next
  assume "dm_subclass_init w gen_modifiers kw = Inr c" and "schema c = []"
  then show "generate_schema_from_datafiles w (datasets c) = Inr []"
    by (rule dm_subclass_init_InrD)
qed

theorem dm_construction_errors_witness:
  "dm_subclass_init demo_dm_world generate_modifiers (demo_dm_kwargs\<lparr>dk_base_dir := Some ''/nowhere''\<rparr>)
     = Inl ValueError \<and>
   dm_subclass_init demo_dm_world generate_modifiers (demo_dm_kwargs\<lparr>dk_filename_re := (\<lambda>f. False)\<rparr>)
     = Inl RuntimeError \<and>
   datasets demo_dm_catalog \<noteq> [] \<and>
   generate_schema_from_datafiles demo_dm_world_no_schema (datasets demo_dm_catalog) = Inr []"
proof -
  let ?kw1 = "demo_dm_kwargs\<lparr>dk_base_dir := Some ''/nowhere''\<rparr>"
  let ?kw2 = "demo_dm_kwargs\<lparr>dk_filename_re := (\<lambda>f. False)\<rparr>"
  have 1: "dk_base_dir ?kw1 = Some ''/nowhere'' \<and> dw_dirs demo_dm_world ''/nowhere'' = None"
    by (simp add: demo_dm_world_def)
  have 2: "dk_base_dir ?kw2 = Some ''/data'' \<and>
           dw_dirs demo_dm_world ''/data'' = Some [''source_visit_1.parquet''] \<and>
           (\<forall>f \<in> set [''source_visit_1.parquet'']. \<not> dk_filename_re ?kw2 f)"
    by (simp add: demo_dm_world_def demo_dm_kwargs_def)
  from dm_construction_errors [where kw = ?kw1 and bd = "''/nowhere''" and w = demo_dm_world] 1
  have "dm_subclass_init demo_dm_world generate_modifiers ?kw1 = Inl ValueError" by blast
  moreover from dm_construction_errors [where kw = ?kw2 and bd = "''/data''" and w = demo_dm_world
      and entries = "[''source_visit_1.parquet'']"] 2
  have "dm_subclass_init demo_dm_world generate_modifiers ?kw2 = Inl RuntimeError" by blast
  moreover from dm_construction_errors [where kw = demo_dm_kwargs and w = demo_dm_world
      and gen_modifiers = generate_modifiers and c = demo_dm_catalog]
    demo_dm_init
  have "datasets demo_dm_catalog \<noteq> []" by blast
  moreover from dm_construction_errors [where kw = demo_dm_kwargs and w = demo_dm_world_no_schema
      and gen_modifiers = generate_modifiers
      and c = "demo_dm_catalog\<lparr>schema := [], native_filter_quantities := []\<rparr>"]
    demo_dm_init_no_schema
  have "generate_schema_from_datafiles demo_dm_world_no_schema (datasets demo_dm_catalog) = Inr []"
    by simp
  ultimately show ?thesis by simp
qed

lemma open_parquet_consistent:
  assumes inv: "registry_consistent w c"
  shows "dw_open w p = Some e \<Longrightarrow> open_parquet w p c = (Inl e, c)"
    and "dw_open w p = None \<Longrightarrow>
         \<exists>h c'. open_parquet w p c = (Inr h, c') \<and> h_path h = p \<and>
           registry_consistent w c' \<and> base_dir c' = base_dir c \<and>
           filename_re c' = filename_re c"
proof -
  assume e: "dw_open w p = Some e"
  have "map_of (file_handles c) p = None"
  proof (cases "map_of (file_handles c) p")
    case (Some h)
    then have "(p, h) \<in> set (file_handles c)" by (rule map_of_SomeD)
    with inv e show ?thesis by (auto simp: registry_consistent_def list_all_iff)
  qed simp
  with e show "open_parquet w p c = (Inl e, c)" by (simp add: open_parquet_def)
next
  assume ok: "dw_open w p = None"
  show "\<exists>h c'. open_parquet w p c = (Inr h, c') \<and> h_path h = p \<and>
           registry_consistent w c' \<and> base_dir c' = base_dir c \<and>
           filename_re c' = filename_re c"
  proof (cases "map_of (file_handles c) p")
    case (Some h)
    then have "(p, h) \<in> set (file_handles c)" by (rule map_of_SomeD)
    with inv have "h_path h = p" by (auto simp: registry_consistent_def list_all_iff)
    with Some inv show ?thesis by (simp add: open_parquet_def)
  next
    case None
    let ?h = "\<lparr>h_id = next_id c, h_path = p\<rparr>"
    let ?c' = "c\<lparr>file_handles := AList.update p ?h (file_handles c),
                  next_id := Suc (next_id c)\<rparr>"
    have op: "open_parquet w p c = (Inr ?h, ?c')"
      using None ok by (simp add: open_parquet_def Let_def)
    have "set (AList.update p ?h al) \<subseteq> insert (p, ?h) (set al)" for al
      by (induction al) auto
    then have "set (file_handles ?c') \<subseteq> insert (p, ?h) (set (file_handles c))" by simp
    then have "registry_consistent w ?c'"
      using inv ok unfolding registry_consistent_def list_all_iff by fastforce
    with op show ?thesis by simp
  qed
qed

lemma generate_datasets_loop_paths:
  assumes "registry_consistent w c"
    and "generate_datasets_loop w fnames c ds = Inr (ds', c')"
  shows "map h_path ds' =
           map h_path ds @
           map (os_path_join (base_dir c))
             (filter (\<lambda>f. filename_re c f \<and> dw_open w (os_path_join (base_dir c) f) = None)
                fnames) \<and>
         base_dir c' = base_dir c \<and> filename_re c' = filename_re c"
  using assms
proof (induction fnames arbitrary: c ds)
  case Nil
  then show ?case by simp
next
  case (Cons fname fnames)
  let ?p = "os_path_join (base_dir c) fname"
  show ?case
  proof (cases "filename_re c fname")
    case False
    with Cons.prems(2) have "generate_datasets_loop w fnames c ds = Inr (ds', c')" by simp
    from Cons.IH [OF Cons.prems(1) this] False show ?thesis by simp
  next
    case True
    show ?thesis
    proof (cases "dw_open w ?p")
      case (Some e)
      have op: "open_parquet w ?p c = (Inl e, c)"
        by (rule open_parquet_consistent(1) [OF Cons.prems(1) Some])
      with Cons.prems(2) True have "generate_datasets_loop w fnames c ds = Inr (ds', c')"
        by (simp split: if_splits)
      from Cons.IH [OF Cons.prems(1) this] True Some show ?thesis by simp
    next
      case None
      from open_parquet_consistent(2) [OF Cons.prems(1) None]
      obtain h c1 where op: "open_parquet w ?p c = (Inr h, c1)" and hp: "h_path h = ?p"
        and inv1: "registry_consistent w c1" and bd: "base_dir c1 = base_dir c"
        and re: "filename_re c1 = filename_re c"
        by blast
      with Cons.prems(2) True
      have "generate_datasets_loop w fnames c1 (ds @ [h]) = Inr (ds', c')" by simp
      from Cons.IH [OF inv1 this] True None hp bd re show ?thesis by simp
    qed
  qed
qed

lemma dm_subclass_init_discovery_order:
  assumes "dm_subclass_init w gen_modifiers kw = Inr c"
  shows "\<exists>entries. dw_dirs w (base_dir c) = Some entries \<and>
           map h_path (datasets c) =
             map (os_path_join (base_dir c))
               (filter (\<lambda>f. filename_re c f \<and> dw_open w (os_path_join (base_dir c) f) = None)
                  (sort entries))"
proof -
  from assms obtain bd where bd: "dk_base_dir kw = Some bd"
    by (auto simp: dm_subclass_init_def split: option.splits)
  let ?spath = "os_path_join bd
                 (case dk_schema_filename kw of None \<Rightarrow> ''schema.yaml'' | Some f \<Rightarrow> f)"
  let ?c0 = "\<lparr>base_dir = bd, filename_re = dk_filename_re kw,
              use_cache = (case dk_use_cache kw of None \<Rightarrow> True | Some b \<Rightarrow> b),
              schema_path = ?spath, schema = [], file_handles = [],
              datasets = [], quantity_modifiers = [],
              native_filter_quantities = [], next_id = 0\<rparr>"
  from assms bd obtain entries ds c1 where
    en: "dw_dirs w bd = Some entries"
    and g: "generate_datasets_loop w (sort entries) ?c0 [] = Inr (ds, c1)"
    and c: "datasets c = ds" "base_dir c = base_dir c1" "filename_re c = filename_re c1"
    by (auto simp: dm_subclass_init_def generate_datasets_def Let_def
        split: option.splits sum.splits if_splits prod.splits)
  have inv: "registry_consistent w ?c0" by (simp add: registry_consistent_def)
  from generate_datasets_loop_paths [OF inv g] c en show ?thesis by simp
qed

lemma iter_loop_None:
  "use_cache c \<or> (\<forall>d \<in> set ds. dw_clear_cache w d = None) \<Longrightarrow>
   snd (iter_loop w c None ds) = None \<and>
   yielded (fst (iter_loop w c None ds)) = map NativeQuantityGetter ds"
  by (induction ds) (auto split: prod.splits)

lemma iter_loop_Some: "iter_loop w c (Some f) ds = ([], None)"
  by (induction ds) simp_all

text \<open>
  C3, as the claim states it, fails: on a catalog with one dataset the iteration yields
  one getter without filters and none when a filter list is supplied.
\<close>

theorem dm_iteration_filters_counterexample:
  "yielded (fst (dm_iter_native_dataset demo_dm_world demo_dm_catalog (None :: string list option))) =
     [NativeQuantityGetter \<lparr>h_id = 0, h_path = ''/data/source_visit_1.parquet''\<rparr>] \<and>
   yielded (fst (dm_iter_native_dataset demo_dm_world demo_dm_catalog (Some [''g_flux > 0'']))) = []"
  by (simp add: dm_iter_native_dataset_def demo_dm_catalog_def)

text \<open>
  C3, amended. Without filters (\<open>native_filters\<close> is \<open>None\<close>), and when caching is enabled
  or clearing each dataset's cache succeeds, the iteration ends normally and yields
  exactly one getter per dataset, in the order of the dataset list; for a constructed
  catalog that is the order of the sorted directory listing (the matching entries that
  open). A getter reads the one requested column of its dataset. With a filter list
  supplied (anything but \<open>None\<close>) the iteration yields no getter at all.
\<close>

theorem dm_iteration:
  "(use_cache c \<or> (\<forall>d \<in> set (datasets c). dw_clear_cache w d = None) \<longrightarrow>
      snd (dm_iter_native_dataset w c (None :: 'f option)) = None \<and>
      yielded (fst (dm_iter_native_dataset w c (None :: 'f option))) =
        map NativeQuantityGetter (datasets c)) \<and>
   (dm_subclass_init w gen_modifiers kw = Inr c \<longrightarrow>
      (\<exists>entries. dw_dirs w (base_dir c) = Some entries \<and>
         map h_path (datasets c) =
           map (os_path_join (base_dir c))
             (filter (\<lambda>f. filename_re c f \<and> dw_open w (os_path_join (base_dir c) f) = None)
                (sort entries)))) \<and>
   dm_iter_native_dataset w c (Some (f :: 'f)) = ([], None) \<and>
   native_quantity_getter w (NativeQuantityGetter d) q = dw_column w (h_path d) q"
  using dm_subclass_init_discovery_order [of w gen_modifiers kw c]
  by (simp add: dm_iter_native_dataset_def iter_loop_None iter_loop_Some
      native_quantity_getter_def)

theorem dm_iteration_witness:
  "yielded (fst (dm_iter_native_dataset demo_dm_world demo_dm_catalog (None :: string list option))) =
     [NativeQuantityGetter \<lparr>h_id = 0, h_path = ''/data/source_visit_1.parquet''\<rparr>] \<and>
   snd (dm_iter_native_dataset demo_dm_world demo_dm_catalog (None :: string list option)) = None \<and>
   map h_path (datasets demo_dm_catalog) =
     map (os_path_join ''/data'')
       (filter (\<lambda>f. endswith f ''.parquet'') (sort [''source_visit_1.parquet''])) \<and>
   dm_iter_native_dataset demo_dm_world demo_dm_catalog (Some [''g_flux > 0'']) = ([], None)"
proof -
  have h1: "use_cache demo_dm_catalog \<or>
        (\<forall>d \<in> set (datasets demo_dm_catalog). dw_clear_cache demo_dm_world d = None)"
    by (simp add: demo_dm_catalog_def)
  note t = dm_iteration [where c = demo_dm_catalog and w = demo_dm_world
      and gen_modifiers = generate_modifiers and kw = demo_dm_kwargs
      and f = "[''g_flux > 0'']" and 'f = "string list"]
  from t h1 have a:
    "snd (dm_iter_native_dataset demo_dm_world demo_dm_catalog (None :: string list option)) = None"
    "yielded (fst (dm_iter_native_dataset demo_dm_world demo_dm_catalog (None :: string list option))) =
       map NativeQuantityGetter (datasets demo_dm_catalog)"
    by blast+
  from t demo_dm_init obtain entries where
    e: "dw_dirs demo_dm_world (base_dir demo_dm_catalog) = Some entries"
    and o: "map h_path (datasets demo_dm_catalog) =
           map (os_path_join (base_dir demo_dm_catalog))
             (filter (\<lambda>f. filename_re demo_dm_catalog f \<and>
                          dw_open demo_dm_world (os_path_join (base_dir demo_dm_catalog) f) = None)
                (sort entries))"
    by blast
  from e have "entries = [''source_visit_1.parquet'']"
    by (simp add: demo_dm_world_def demo_dm_catalog_def)
  with o have b: "map h_path (datasets demo_dm_catalog) =
     map (os_path_join ''/data'')
       (filter (\<lambda>f. endswith f ''.parquet'') (sort [''source_visit_1.parquet'']))"
    by (simp add: demo_dm_world_def demo_dm_catalog_def)
  from t have c:
    "dm_iter_native_dataset demo_dm_world demo_dm_catalog (Some [''g_flux > 0'']) = ([], None)"
    by blast
  from a b c show ?thesis by (simp add: demo_dm_catalog_def)
qed

end
